theory Spec2Isabelle
  imports Complex_Main "HOL-Library.AList"
begin

section \<open>Python strings\<close>

text \<open>
  A Python \<open>str\<close> is a sequence of code points. The model uses \<open>string\<close>, reading each
  \<open>char\<close> as the code point of the same number (U+0000 to U+00FF), so that the
  literals of \<open>function_app.py\<close> are written as they are in the source.
\<close>

definition py_isspace :: "char \<Rightarrow> bool" where
  \<comment> \<open>\<open>str.isspace\<close> on one code point below U+0100; the set \<open>str.strip()\<close> removes.\<close>
  "py_isspace c \<longleftrightarrow> c \<in> set [CHR 0x09, CHR 0x0A, CHR 0x0B, CHR 0x0C, CHR 0x0D,
      CHR 0x1C, CHR 0x1D, CHR 0x1E, CHR 0x1F, CHR 0x20, CHR 0x85, CHR 0xA0]"

definition lstrip :: "string \<Rightarrow> string" where
  "lstrip s = dropWhile py_isspace s"

definition rstrip :: "string \<Rightarrow> string" where
  "rstrip s = rev (dropWhile py_isspace (rev s))"

definition strip :: "string \<Rightarrow> string" where
  \<comment> \<open>\<open>s.strip()\<close>\<close>
  "strip s = rstrip (lstrip s)"

definition endswith :: "string \<Rightarrow> string \<Rightarrow> bool" where
  \<comment> \<open>\<open>s.endswith(suf)\<close>\<close>
  "endswith s suf \<longleftrightarrow> length suf \<le> length s \<and> drop (length s - length suf) s = suf"

definition drop_last :: "nat \<Rightarrow> string \<Rightarrow> string" where
  \<comment> \<open>The slice \<open>s[:-n]\<close> for \<open>n > 0\<close>; empty when \<open>s\<close> has at most \<open>n\<close> characters.\<close>
  "drop_last n s = take (length s - n) s"

definition remove_commas :: "string \<Rightarrow> string" where
  \<comment> \<open>\<open>s.replace(",", "")\<close>\<close>
  "remove_commas s = filter (\<lambda>c. c \<noteq> CHR '','') s"

definition is_digit :: "char \<Rightarrow> bool" where
  "is_digit c \<longleftrightarrow> c \<in> set ''0123456789''"

definition digit_val :: "char \<Rightarrow> int" where
  \<comment> \<open>The value of a decimal digit.\<close>
  "digit_val c = int (length (takeWhile (\<lambda>d. d \<noteq> c) ''0123456789''))"

fun digits_val :: "int \<Rightarrow> string \<Rightarrow> int" where
  \<comment> \<open>The number a run of decimal digits denotes, most significant first.\<close>
  "digits_val acc [] = acc"
| "digits_val acc (c # cs) = digits_val (10 * acc + digit_val c) cs"

definition ascii_lower :: "char \<Rightarrow> char" where
  \<comment> \<open>The lower-case form of an ASCII capital, 32 code points up (bit 5 set); every
      other character is left as it is.\<close>
  "ascii_lower c =
    (if c \<in> set ''ABCDEFGHIJKLMNOPQRSTUVWXYZ''
     then (case c of Char b0 b1 b2 b3 b4 b5 b6 b7 \<Rightarrow> Char b0 b1 b2 b3 b4 True b6 b7)
     else c)"

section \<open>Python floats\<close>

text \<open>
  A \<open>float\<close> is an IEEE 754 binary64 number. A finite one is kept as a pair \<open>m\<close>, \<open>e\<close>
  standing for \<open>m * 2 ^ e\<close>, not necessarily normalised. The sign of a zero is not kept:
  \<open>round\<close>, the only consumer here, returns the integer 0 for both.
\<close>

datatype pyfloat = Finite int int | PInf | NInf | NaN

datatype py_error =
    ValueError string
  | TypeError string
  | OverflowError string
  | AttributeError string
  | OtherError string

fun str_of_error :: "py_error \<Rightarrow> string" where
  \<comment> \<open>\<open>str(e)\<close>\<close>
  "str_of_error (ValueError m) = m"
| "str_of_error (TypeError m) = m"
| "str_of_error (OverflowError m) = m"
| "str_of_error (AttributeError m) = m"
| "str_of_error (OtherError m) = m"

function bitlen :: "int \<Rightarrow> int" where
  \<comment> \<open>The number of binary digits of a positive integer.\<close>
  "bitlen n = (if n \<le> 0 then 0 else 1 + bitlen (n div 2))"
  by pat_completeness auto
termination
  by (relation "measure nat") auto

declare bitlen.simps [simp del]

definition ilog2 :: "int \<Rightarrow> int \<Rightarrow> int" where
  \<comment> \<open>\<open>\<lfloor>log\<^sub>2 (n / d)\<rfloor>\<close> for positive \<open>n\<close> and \<open>d\<close>.\<close>
  "ilog2 n d =
    (let g = bitlen n - bitlen d
     in if (if 0 \<le> g then d * 2 ^ nat g \<le> n else d \<le> n * 2 ^ nat (- g)) then g else g - 1)"

definition rhe_div :: "int \<Rightarrow> int \<Rightarrow> int" where
  \<comment> \<open>For \<open>0 \<le> a\<close> and \<open>0 < b\<close>: \<open>a / b\<close> rounded to the nearest integer, a tie going to
      the even one.\<close>
  "rhe_div a b =
    (let q = a div b; r = a mod b
     in if 2 * r < b then q else if b < 2 * r then q + 1 else if even q then q else q + 1)"

definition round_double :: "bool \<Rightarrow> int \<Rightarrow> int \<Rightarrow> pyfloat" where
  \<comment> \<open>The binary64 number nearest to \<open>\<plusminus> n / d\<close>, for \<open>0 \<le> n\<close> and \<open>0 < d\<close> (ties to
      even, overflow to infinity, gradual underflow).\<close>
  "round_double neg n d =
    (if n = 0 then Finite 0 0
     else
       let e = max (ilog2 n d) (- 1022);
           q = e - 52;
           m = (if 0 \<le> q then rhe_div n (d * 2 ^ nat q) else rhe_div (n * 2 ^ nat (- q)) d)
       in if 971 < q \<or> (q = 971 \<and> 2 ^ 53 \<le> m) then (if neg then NInf else PInf)
          else Finite (if neg then - m else m) q)"

definition float_of_int :: "int \<Rightarrow> pyfloat" where
  \<comment> \<open>The conversion of an \<open>int\<close> operand of \<open>*\<close> to \<open>float\<close> (below the overflow
      threshold, where Python raises instead).\<close>
  "float_of_int k = round_double (k < 0) \<bar>k\<bar> 1"

fun fmul :: "pyfloat \<Rightarrow> pyfloat \<Rightarrow> pyfloat" where
  \<comment> \<open>\<open>x * y\<close> on floats: the exact product, rounded once.\<close>
  "fmul (Finite m1 e1) (Finite m2 e2) =
    (let m = m1 * m2; e = e1 + e2
     in if 0 \<le> e then round_double (m < 0) (\<bar>m\<bar> * 2 ^ nat e) 1
        else round_double (m < 0) \<bar>m\<bar> (2 ^ nat (- e)))"
| "fmul NaN _ = NaN"
| "fmul _ NaN = NaN"
| "fmul PInf (Finite m e) = (if m = 0 then NaN else if m < 0 then NInf else PInf)"
| "fmul NInf (Finite m e) = (if m = 0 then NaN else if m < 0 then PInf else NInf)"
| "fmul (Finite m e) PInf = (if m = 0 then NaN else if m < 0 then NInf else PInf)"
| "fmul (Finite m e) NInf = (if m = 0 then NaN else if m < 0 then PInf else NInf)"
| "fmul PInf PInf = PInf"
| "fmul NInf NInf = PInf"
| "fmul PInf NInf = NInf"
| "fmul NInf PInf = NInf"

definition round_int :: "int \<Rightarrow> int \<Rightarrow> int" where
  \<comment> \<open>The integer nearest to \<open>m * 2 ^ e\<close>, a tie going to the even one.\<close>
  "round_int m e =
    (if 0 \<le> e then m * 2 ^ nat e
     else if m < 0 then - rhe_div (- m) (2 ^ nat (- e))
     else rhe_div m (2 ^ nat (- e)))"

fun py_round :: "pyfloat \<Rightarrow> py_error + int" where
  \<comment> \<open>\<open>round(x)\<close> with one argument.\<close>
  "py_round (Finite m e) = Inr (round_int m e)"
| "py_round NaN = Inl (ValueError ''cannot convert float NaN to integer'')"
| "py_round PInf = Inl (OverflowError ''cannot convert float infinity to integer'')"
| "py_round NInf = Inl (OverflowError ''cannot convert float infinity to integer'')"

subsection \<open>Reading a float from a string\<close>

definition float_isspace :: "char \<Rightarrow> bool" where
  \<comment> \<open>What \<open>float()\<close> and \<open>int()\<close> skip at both ends: unlike \<open>str.strip\<close>, not U+001C
      to U+001F.\<close>
  "float_isspace c \<longleftrightarrow> c \<in> set [CHR 0x09, CHR 0x0A, CHR 0x0B, CHR 0x0C, CHR 0x0D,
      CHR 0x20, CHR 0x85, CHR 0xA0]"

definition float_strip :: "string \<Rightarrow> string" where
  "float_strip s = rev (dropWhile float_isspace (rev (dropWhile float_isspace s)))"

fun del_underscores :: "char \<Rightarrow> string \<Rightarrow> string option" where
  \<comment> \<open>An underscore is allowed between two digits only; the first argument is the
      previous character.\<close>
  "del_underscores prev [] = (if prev = CHR ''_'' then None else Some [])"
| "del_underscores prev (c # cs) =
    (if c = CHR ''_'' then (if is_digit prev then del_underscores c cs else None)
     else if prev = CHR ''_'' \<and> \<not> is_digit c then None
     else map_option ((#) c) (del_underscores c cs))"

definition split_sign :: "string \<Rightarrow> bool \<times> string" where
  "split_sign s =
    (case s of
       [] \<Rightarrow> (False, [])
     | c # cs \<Rightarrow> if c = CHR ''-'' then (True, cs) else if c = CHR ''+'' then (False, cs)
                 else (False, s))"

definition parse_exponent :: "string \<Rightarrow> int option" where
  \<comment> \<open>What follows the mantissa: nothing, or \<open>e\<close>/\<open>E\<close>, an optional sign and digits.\<close>
  "parse_exponent s =
    (case s of
       [] \<Rightarrow> Some 0
     | c # cs \<Rightarrow>
         if c = CHR ''e'' \<or> c = CHR ''E'' then
           (let (neg, ds) = split_sign cs
            in if ds \<noteq> [] \<and> list_all is_digit ds
               then Some (if neg then - digits_val 0 ds else digits_val 0 ds)
               else None)
         else None)"

definition dec_to_double :: "bool \<Rightarrow> int \<Rightarrow> int \<Rightarrow> pyfloat" where
  \<comment> \<open>The float nearest to \<open>\<plusminus> n * 10 ^ k\<close>.\<close>
  "dec_to_double neg n k =
    (if 0 \<le> k then round_double neg (n * 10 ^ nat k) 1 else round_double neg n (10 ^ nat (- k)))"

definition strtod :: "string \<Rightarrow> pyfloat option" where
  "strtod s =
    (let (neg, r) = split_sign s; w = map ascii_lower r
     in if w = ''inf'' \<or> w = ''infinity'' then Some (if neg then NInf else PInf)
        else if w = ''nan'' then Some NaN
        else
          let ip = takeWhile is_digit r; r1 = dropWhile is_digit r;
              fp = (case r1 of [] \<Rightarrow> [] | c # cs \<Rightarrow> if c = CHR ''.'' then takeWhile is_digit cs else []);
              r2 = (case r1 of [] \<Rightarrow> [] | c # cs \<Rightarrow> if c = CHR ''.'' then dropWhile is_digit cs else r1)
          in if ip = [] \<and> fp = [] then None
             else (case parse_exponent r2 of
                     None \<Rightarrow> None
                   | Some x \<Rightarrow> Some (dec_to_double neg (digits_val 0 (ip @ fp)) (x - int (length fp)))))"

definition py_float :: "string \<Rightarrow> pyfloat option" where
  \<comment> \<open>\<open>float(s)\<close> on a string; \<open>None\<close> is \<open>ValueError\<close>.\<close>
  "py_float s = (case del_underscores (CHR 0x00) (float_strip s) of None \<Rightarrow> None | Some u \<Rightarrow> strtod u)"

section \<open>Field normalisation\<close>

definition round_float_times :: "string \<Rightarrow> int \<Rightarrow> py_error + int" where
  \<comment> \<open>\<open>round(float(x) * k)\<close>\<close>
  "round_float_times x k =
    (case py_float x of
       None \<Rightarrow> Inl (ValueError (''could not convert string to float: '' @ x))
     | Some f \<Rightarrow> py_round (fmul f (float_of_int k)))"

definition round_float :: "string \<Rightarrow> py_error + int" where
  \<comment> \<open>\<open>round(float(x))\<close>\<close>
  "round_float x =
    (case py_float x of
       None \<Rightarrow> Inl (ValueError (''could not convert string to float: '' @ x))
     | Some f \<Rightarrow> py_round f)"

fun except_value_type :: "py_error + int \<Rightarrow> py_error + int" where
  \<comment> \<open>\<open>except (ValueError, TypeError): ... return 0\<close>; any other exception passes.\<close>
  "except_value_type (Inl (ValueError m)) = Inr 0"
| "except_value_type (Inl (TypeError m)) = Inr 0"
| "except_value_type r = r"

definition convert_price :: "string \<Rightarrow> py_error + int" where
  "convert_price price0 =
    (if price0 = [] then Inr 0
     else
       let price = strip price0
       in except_value_type
            (if endswith price ''Crore'' then
               round_float_times (remove_commas (strip (drop_last 5 price))) 10000000
             else if endswith price ''Lakh'' then
               round_float_times (remove_commas (strip (drop_last 4 price))) 100000
             else if endswith price ''Million'' then
               round_float_times (remove_commas (strip (drop_last 7 price))) 1000000
             else if endswith price ''Arab'' then
               round_float_times (remove_commas (strip (drop_last 4 price))) 1000000000
             else if endswith price ''Thousand'' then
               round_float_times (remove_commas (strip (drop_last 8 price))) 1000
             else round_float (remove_commas price)))"

definition convert_size :: "string \<Rightarrow> py_error + int" where
  "convert_size size0 =
    (if size0 = [] then Inr 0
     else
       let sz = strip size0
       in except_value_type
            (if endswith sz ''Marla'' then
               round_float_times (remove_commas (strip (drop_last 5 sz))) 225
             else if endswith sz ''Kanal'' then
               round_float_times (remove_commas (strip (drop_last 5 sz))) 4500
             else if endswith sz ''Sq. Yd.'' then
               round_float_times (remove_commas (strip (drop_last 7 sz))) 9
             else if endswith sz ''Sq. Ft.'' then
               round_float (remove_commas (strip (drop_last 7 sz)))
             else round_float (remove_commas sz)))"

section \<open>Text extraction\<close>

definition py_int :: "string \<Rightarrow> int option" where
  \<comment> \<open>\<open>int(s)\<close> on a string, base 10; \<open>None\<close> is \<open>ValueError\<close>, which is also what
      more than 4300 digits give (the default limit on integer string conversion).\<close>
  "py_int s =
    (case del_underscores (CHR 0x00) (float_strip s) of
       None \<Rightarrow> None
     | Some u \<Rightarrow>
         let (neg, ds) = split_sign u
         in if ds \<noteq> [] \<and> list_all is_digit ds \<and> length ds \<le> 4300
            then Some (if neg then - digits_val 0 ds else digits_val 0 ds)
            else None)"

datatype pyval = PyInt int | PyFloat pyfloat | PyStr string | PyNone

text \<open>
  A tag is kept as its \<open>.text\<close>; \<open>None\<close> is Python's \<open>None\<close>, what \<open>select_one\<close>
  returns when nothing matches.
\<close>

definition text_of :: "string option \<Rightarrow> string \<Rightarrow> py_error + pyval" where
  \<comment> \<open>\<open>text(tag, datatype)\<close>\<close>
  "text_of tag dt =
    (if dt = ''num'' then
       (case tag of
          None \<Rightarrow> Inr (PyInt 0)
        | Some t \<Rightarrow> (case py_int (strip t) of None \<Rightarrow> Inr (PyInt 0) | Some n \<Rightarrow> Inr (PyInt n)))
     else if dt = ''str'' then
       (case tag of None \<Rightarrow> Inr (PyStr []) | Some t \<Rightarrow> Inr (PyStr (strip t)))
     else if dt = ''price'' then
       (case tag of None \<Rightarrow> Inr (PyFloat (Finite 0 0)) | Some t \<Rightarrow> map_sum id PyInt (convert_price (strip t)))
     else if dt = ''size'' then
       (case tag of None \<Rightarrow> Inr (PyFloat (Finite 0 0)) | Some t \<Rightarrow> map_sum id PyInt (convert_size (strip t)))
     else Inr PyNone)"

section \<open>One listing\<close>

text \<open>
  A listing node, as far as the scraper looks at it: the result of each \<open>select_one\<close>
  query the source makes on it.
\<close>

record house =
  q_baths :: "string option"  \<comment> \<open>\<open>span[aria-label='Baths']\<close>\<close>
  q_beds :: "string option"  \<comment> \<open>\<open>span[aria-label='Beds']\<close>\<close>
  q_location :: "string option"  \<comment> \<open>\<open>div[aria-label='Location']\<close>\<close>
  q_price :: "string option"  \<comment> \<open>\<open>span[aria-label='Price']\<close>\<close>
  q_size :: "string option"  \<comment> \<open>\<open>div[title]>div > div > span:nth-child(1)\<close>\<close>
  q_size_alt :: "string option"
    \<comment> \<open>\<open>div:nth-child(2) > div > span:nth-child(3)\<close> under the parent of the location\<close>
  q_property_type :: "string option"  \<comment> \<open>\<open>div[aria-label='Property Type']\<close>\<close>
  q_date_added :: "string option"  \<comment> \<open>\<open>div[aria-label='Date Added']\<close>\<close>
  q_reference :: "string option"  \<comment> \<open>\<open>div[aria-label='Reference']\<close>\<close>

type_synonym pydict = "(string \<times> pyval) list"

definition and_then :: "py_error + 'a \<Rightarrow> ('a \<Rightarrow> py_error + 'b) \<Rightarrow> py_error + 'b" where
  \<comment> \<open>Sequencing: an exception raised by the first step skips the rest.\<close>
  "and_then r f = (case r of Inl e \<Rightarrow> Inl e | Inr x \<Rightarrow> f x)"

definition text_if_found :: "string option \<Rightarrow> py_error + pyval" where
  \<comment> \<open>\<open>text(el) if el else ""\<close>\<close>
  "text_if_found el = (case el of Some t \<Rightarrow> text_of (Some t) ''str'' | None \<Rightarrow> Inr (PyStr []))"

definition extract_additional_features :: "house \<Rightarrow> pydict" where
  "extract_additional_features h =
    (case and_then (text_if_found (q_property_type h)) (\<lambda>property_type.
          and_then (text_if_found (q_date_added h)) (\<lambda>date_added.
          and_then (text_if_found (q_reference h)) (\<lambda>listing_id.
          Inr [(''property_type'', property_type), (''date_added'', date_added),
               (''listing_id'', listing_id)]))) of
       Inr d \<Rightarrow> d
     | Inl e \<Rightarrow> [(''property_type'', PyStr []), (''date_added'', PyStr []), (''listing_id'', PyStr [])])"

definition lookup :: "pydict \<Rightarrow> string \<Rightarrow> pyval" where
  \<comment> \<open>\<open>d[k]\<close> for a key that is there.\<close>
  "lookup d k = (case map_of d k of Some v \<Rightarrow> v | None \<Rightarrow> PyNone)"

definition house_listing :: "string \<Rightarrow> house \<Rightarrow> py_error + pydict option" where
  \<comment> \<open>The body of the \<open>try\<close> for one listing node: the record to append, if any. The first
      argument is the reading of \<open>datetime.now().isoformat()\<close>.\<close>
  "house_listing now h =
    (case q_price h of
       None \<Rightarrow> Inr None
     | Some p \<Rightarrow>
         and_then
           (case q_size h of
              None \<Rightarrow>
                (case q_location h of
                   None \<Rightarrow>
                     Inl (AttributeError (CHR 0x27 # ''NoneType'' @ CHR 0x27 #
                       '' object has no attribute '' @ CHR 0x27 # ''parent'' @ [CHR 0x27]))
                 | Some l \<Rightarrow> Inr (q_size_alt h))
            | Some s \<Rightarrow> Inr (Some s))
           (\<lambda>size.
              let additional_features = extract_additional_features h
              in and_then (text_of (q_location h) ''str'') (\<lambda>location_v.
                 and_then (text_of (q_price h) ''price'') (\<lambda>price_v.
                 and_then (text_of (q_beds h) ''num'') (\<lambda>bedrooms_v.
                 and_then (text_of (q_baths h) ''num'') (\<lambda>baths_v.
                 and_then (text_of size ''size'') (\<lambda>size_v.
                 Inr (Some
                   [(''location'', location_v),
                    (''price'', price_v),
                    (''bedrooms'', bedrooms_v),
                    (''baths'', baths_v),
                    (''size'', size_v),
                    (''property_type'', lookup additional_features ''property_type''),
                    (''date_added'', lookup additional_features ''date_added''),
                    (''original_listing_id'', lookup additional_features ''listing_id''),
                    (''scrape_date'', PyStr now)]))))))))"

fun process_houses :: "(nat \<Rightarrow> string) \<Rightarrow> house list \<Rightarrow> pydict list \<Rightarrow> pydict list" where
  \<comment> \<open>\<open>for house in house_list\<close>: a record is appended, or the node is passed over (no
      price, or an exception, which is logged). The clock is read once for each record
      built, so its next reading is the one numbered by the length of the list.\<close>
  "process_houses now [] house_info = house_info"
| "process_houses now (h # hs) house_info =
    (case house_listing (now (length house_info)) h of
       Inr (Some listing_data) \<Rightarrow> process_houses now hs (house_info @ [listing_data])
     | Inr None \<Rightarrow> process_houses now hs house_info
     | Inl e \<Rightarrow> process_houses now hs house_info)"

section \<open>Pagination for one city\<close>

record page =
  body :: string  \<comment> \<open>\<open>response.text\<close>\<close>
  main_items :: "house list"  \<comment> \<open>\<open>soup.select("main > div > div > div > div > ul > li")\<close>\<close>
  listing_tiles :: "house list"  \<comment> \<open>\<open>soup.select("div.listingTile")\<close>\<close>

datatype response =
    RequestException string
      \<comment> \<open>\<open>requests.get\<close> or \<open>raise_for_status\<close> raised a \<open>RequestException\<close>\<close>
  | OtherException string  \<comment> \<open>any other \<open>Exception\<close> raised while the page is read\<close>
  | Response page

definition py_lower :: "char \<Rightarrow> char" where
  \<comment> \<open>\<open>str.lower\<close> on one code point below U+0100: the capitals are A to Z and U+00C0 to
      U+00DE without U+00D7, each 32 code points below its lower-case form.\<close>
  "py_lower c =
    (if c \<in> set ''ABCDEFGHIJKLMNOPQRSTUVWXYZ''
        \<or> (192 \<le> (of_char c :: int) \<and> (of_char c :: int) \<le> 222 \<and> (of_char c :: int) \<noteq> 215)
     then (case c of Char b0 b1 b2 b3 b4 b5 b6 b7 \<Rightarrow> Char b0 b1 b2 b3 b4 True b6 b7)
     else c)"

fun contains :: "string \<Rightarrow> string \<Rightarrow> bool" where
  \<comment> \<open>\<open>sub in s\<close>\<close>
  "contains sub [] = (sub = [])"
| "contains sub (c # cs) = (take (length sub) (c # cs) = sub \<or> contains sub cs)"

function digits_of :: "int \<Rightarrow> string" where
  "digits_of n =
    (if n < 10 then [''0123456789'' ! nat n] else digits_of (n div 10) @ [''0123456789'' ! nat (n mod 10)])"
  by pat_completeness auto
termination
  by (relation "measure nat") auto

declare digits_of.simps [simp del]

definition str_int :: "int \<Rightarrow> string" where
  \<comment> \<open>\<open>str(i)\<close>, as an f-string formats an \<open>int\<close>.\<close>
  "str_int i = (if i < 0 then CHR ''-'' # digits_of (- i) else digits_of i)"

text \<open>
  Whether a call of \<open>time.sleep\<close> returns or raises depends on the platform and on its
  clock (a negative or NaN argument raises \<open>ValueError\<close>, one beyond the range of the
  platform's \<open>time_t\<close> raises \<open>OverflowError\<close> or \<open>OSError\<close>), and the jitter is random. So
  the outcome of each call is part of what the run meets: for the delay passed to \<open>scrap\<close>
  and the page being fetched, the exception the call raises, if any.
\<close>

record sleeps =
  jittered :: "pyfloat \<Rightarrow> int \<Rightarrow> py_error option"
    \<comment> \<open>\<open>time.sleep(delay * jitter)\<close>, before the request\<close>
  penalty :: "pyfloat \<Rightarrow> int \<Rightarrow> py_error option"
    \<comment> \<open>\<open>time.sleep(delay * 3)\<close>, in an exception handler\<close>

record scrap_state =
  house_info :: "pydict list"
  consecutive_errors :: nat
  requested :: "string list"  \<comment> \<open>the URLs \<open>requests.get\<close> was called on, in order\<close>

datatype flow =
    Continue scrap_state  \<comment> \<open>the iteration ended, by \<open>continue\<close> or at the end of the body\<close>
  | Break scrap_state  \<comment> \<open>\<open>break\<close>\<close>
  | Raise py_error scrap_state  \<comment> \<open>an exception left the loop\<close>

definition max_consecutive_errors :: nat where
  "max_consecutive_errors = 3"

definition page_url :: "string \<Rightarrow> int \<Rightarrow> string" where
  "page_url city page_number =
    ''https://www.zameen.com/Homes/'' @ city @ ''-'' @ str_int page_number @ ''.html''"

definition invalid_html :: "string \<Rightarrow> bool" where
  \<comment> \<open>\<open>not response.text.strip() or "<html" not in response.text.lower()\<close>\<close>
  "invalid_html t \<longleftrightarrow> strip t = [] \<or> \<not> contains ''<html'' (map py_lower t)"

definition house_list_of :: "page \<Rightarrow> house list" where
  \<comment> \<open>The listing nodes of a page: those of the main selector, or of the alternative one
      when the main selector finds none.\<close>
  "house_list_of p = (if main_items p = [] then listing_tiles p else main_items p)"

definition after_error :: "sleeps \<Rightarrow> pyfloat \<Rightarrow> int \<Rightarrow> scrap_state \<Rightarrow> flow" where
  \<comment> \<open>The two \<open>except\<close> clauses: \<open>consecutive_errors += 1\<close>, \<open>time.sleep(delay * 3)\<close>,
      \<open>continue\<close>. An exception of that \<open>time.sleep\<close> leaves the function.\<close>
  "after_error sl delay page_number st =
    (let st' = st\<lparr>consecutive_errors := consecutive_errors st + 1\<rparr>
     in case penalty sl delay page_number of Some e \<Rightarrow> Raise e st' | None \<Rightarrow> Continue st')"

definition scrap_page ::
  "(string \<Rightarrow> response) \<Rightarrow> (nat \<Rightarrow> string) \<Rightarrow> sleeps \<Rightarrow> string \<Rightarrow> pyfloat \<Rightarrow> scrap_state \<Rightarrow> int
    \<Rightarrow> flow" where
  \<comment> \<open>One iteration of \<open>for page_number in range(1, pages_range+1)\<close>. An exception of the
      first \<open>time.sleep\<close> is raised inside the \<open>try\<close> and caught by \<open>except Exception\<close>.\<close>
  "scrap_page get now sl city delay st page_number =
    (if max_consecutive_errors \<le> consecutive_errors st then Break st
     else
       let url = page_url city page_number
       in case jittered sl delay page_number of
            Some e \<Rightarrow> after_error sl delay page_number st
          | None \<Rightarrow>
              let st1 = st\<lparr>requested := requested st @ [url]\<rparr>
              in case get url of
                   RequestException m \<Rightarrow> after_error sl delay page_number st1
                 | OtherException m \<Rightarrow> after_error sl delay page_number st1
                 | Response p \<Rightarrow>
                     if invalid_html (body p) then
                       Continue (st1\<lparr>consecutive_errors := consecutive_errors st1 + 1\<rparr>)
                     else
                       let house_list = house_list_of p
                       in if house_list = [] then Break st1
                          else
                            let prev_len = length (house_info st1);
                                st2 = st1\<lparr>house_info := process_houses now house_list (house_info st1)\<rparr>;
                                st3 = st2\<lparr>consecutive_errors := 0\<rparr>
                            in if length (house_info st3) = prev_len then Break st3
                               else Continue st3)"

fun scrap_loop ::
  "(string \<Rightarrow> response) \<Rightarrow> (nat \<Rightarrow> string) \<Rightarrow> sleeps \<Rightarrow> string \<Rightarrow> pyfloat \<Rightarrow> int list
    \<Rightarrow> scrap_state \<Rightarrow> flow" where
  \<comment> \<open>The \<open>for\<close> loop over the page numbers still to come.\<close>
  "scrap_loop get now sl city delay [] st = Continue st"
| "scrap_loop get now sl city delay (page_number # rest) st =
    (case scrap_page get now sl city delay st page_number of
       Continue st' \<Rightarrow> scrap_loop get now sl city delay rest st'
     | Break st' \<Rightarrow> Break st'
     | Raise e st' \<Rightarrow> Raise e st')"

definition scrap_init :: scrap_state where
  \<comment> \<open>The local variables of \<open>scrap\<close> before the loop.\<close>
  "scrap_init = \<lparr>house_info = [], consecutive_errors = 0, requested = []\<rparr>"

definition scrap_run ::
  "(string \<Rightarrow> response) \<Rightarrow> (nat \<Rightarrow> string) \<Rightarrow> sleeps \<Rightarrow> string \<Rightarrow> int \<Rightarrow> pyfloat \<Rightarrow> flow" where
  \<comment> \<open>The loop of \<open>scrap\<close> from its initial state, with the local state it ends in.\<close>
  "scrap_run get now sl city pages_range delay =
    scrap_loop get now sl city delay [1..pages_range] scrap_init"

fun final_state :: "flow \<Rightarrow> scrap_state" where
  "final_state (Continue st) = st"
| "final_state (Break st) = st"
| "final_state (Raise e st) = st"

fun returned :: "flow \<Rightarrow> py_error + pydict list" where
  \<comment> \<open>\<open>return house_info\<close>, after the loop has ended or was left by \<open>break\<close>.\<close>
  "returned (Continue st) = Inr (house_info st)"
| "returned (Break st) = Inr (house_info st)"
| "returned (Raise e st) = Inl e"

definition scrap ::
  "(string \<Rightarrow> response) \<Rightarrow> (nat \<Rightarrow> string) \<Rightarrow> sleeps \<Rightarrow> string \<Rightarrow> int \<Rightarrow> pyfloat
    \<Rightarrow> py_error + pydict list" where
  "scrap get now sl city pages_range delay = returned (scrap_run get now sl city pages_range delay)"

section \<open>The run over the cities\<close>

text \<open>
  What the run meets outside the program: the web site, the clock, the sleeps and the
  blob store.
  An upload is kept as the name of its blob and whether it raises; what is uploaded is
  not modelled.
\<close>

record world =
  http_get :: "string \<Rightarrow> response"  \<comment> \<open>the answer to \<open>requests.get\<close> on a URL\<close>
  clock :: "string \<Rightarrow> nat \<Rightarrow> string"
    \<comment> \<open>the readings of \<open>datetime.now().isoformat()\<close> inside \<open>scrap\<close> for a city\<close>
  upload :: "string \<Rightarrow> string option"
    \<comment> \<open>\<open>get_blob_client(name).upload_blob(...)\<close>: the message of the exception raised, if any\<close>
  sleeping :: "string \<Rightarrow> sleeps"
    \<comment> \<open>the outcomes of the calls of \<open>time.sleep\<close> inside \<open>scrap\<close> for a city\<close>
  elapsed :: "string \<Rightarrow> pyfloat"  \<comment> \<open>the \<open>duration_seconds\<close> measured for a city\<close>

record city =
  city_id :: int
  city_name :: string

definition cities :: "city list" where
  "cities =
    [\<lparr>city_id = 1, city_name = ''Lahore''\<rparr>,
     \<lparr>city_id = 2, city_name = ''Karachi''\<rparr>,
     \<lparr>city_id = 3, city_name = ''Islamabad''\<rparr>,
     \<lparr>city_id = 15, city_name = ''Multan''\<rparr>,
     \<lparr>city_id = 16, city_name = ''Faisalabad''\<rparr>,
     \<lparr>city_id = 17, city_name = ''Peshawar''\<rparr>,
     \<lparr>city_id = 18, city_name = ''Quetta''\<rparr>,
     \<lparr>city_id = 41, city_name = ''Rawalpindi''\<rparr>,
     \<lparr>city_id = 36, city_name = ''Murree''\<rparr>,
     \<lparr>city_id = 327, city_name = ''Gujranwala''\<rparr>,
     \<lparr>city_id = 1233, city_name = ''Attock''\<rparr>]"

record run =
  total_listings :: int
  city_stats :: "(string \<times> pydict) list"  \<comment> \<open>a \<open>dict\<close>, in insertion order\<close>

definition city_try ::
  "world \<Rightarrow> string \<Rightarrow> int \<Rightarrow> pyfloat \<Rightarrow> run \<Rightarrow> city \<Rightarrow> py_error option \<times> run" where
  \<comment> \<open>The body of the \<open>try\<close> for one city: the exception that leaves it, if any, and the
      run's variables at that point.\<close>
  "city_try w timestamp max_pages scraper_delay r c =
    (let name = city_name c;
         slug = name @ ''-'' @ str_int (city_id c)
     in case scrap (http_get w) (clock w slug) (sleeping w slug) slug max_pages scraper_delay of
          Inl e \<Rightarrow> (Some e, r)
        | Inr city_data \<Rightarrow>
            if city_data = [] then
              (None, r\<lparr>city_stats := AList.update name
                  [(''status'', PyStr ''no_data''), (''listings_count'', PyInt 0),
                   (''duration_seconds'', PyFloat (elapsed w name))] (city_stats r)\<rparr>)
            else
              let listings_count = int (length city_data);
                  r1 = r\<lparr>total_listings := total_listings r + listings_count\<rparr>
              in case upload w (timestamp @ ''/'' @ map py_lower name @ ''_data.json'') of
                   Some m \<Rightarrow> (Some (OtherError m), r1)
                 | None \<Rightarrow>
                     (case upload w (timestamp @ ''/'' @ map py_lower name @ ''_data.csv'') of
                        Some m \<Rightarrow> (Some (OtherError m), r1)
                      | None \<Rightarrow>
                          (None, r1\<lparr>city_stats := AList.update name
                              [(''status'', PyStr ''success''), (''listings_count'', PyInt listings_count),
                               (''duration_seconds'', PyFloat (elapsed w name))] (city_stats r1)\<rparr>)))"

definition process_city ::
  "world \<Rightarrow> string \<Rightarrow> int \<Rightarrow> pyfloat \<Rightarrow> run \<Rightarrow> city \<Rightarrow> run" where
  \<comment> \<open>One iteration of \<open>for city in cities\<close>, with its \<open>except Exception\<close>.\<close>
  "process_city w timestamp max_pages scraper_delay r c =
    (case city_try w timestamp max_pages scraper_delay r c of
       (None, r') \<Rightarrow> r'
     | (Some e, r') \<Rightarrow>
         r'\<lparr>city_stats := AList.update (city_name c)
             [(''status'', PyStr ''error''), (''error_message'', PyStr (str_of_error e)),
              (''duration_seconds'', PyFloat (elapsed w (city_name c)))] (city_stats r')\<rparr>)"

definition run_cities ::
  "world \<Rightarrow> string \<Rightarrow> int \<Rightarrow> pyfloat \<Rightarrow> city list \<Rightarrow> run \<Rightarrow> run" where
  "run_cities w timestamp max_pages scraper_delay cs r =
    foldl (process_city w timestamp max_pages scraper_delay) r cs"

definition ZameenScraper_run :: "world \<Rightarrow> string \<Rightarrow> int \<Rightarrow> pyfloat \<Rightarrow> run" where
  \<comment> \<open>\<open>total_listings\<close> and \<open>city_stats\<close> as the final \<open>run_metadata\<close> gets them.\<close>
  "ZameenScraper_run w timestamp max_pages scraper_delay =
    run_cities w timestamp max_pages scraper_delay cities \<lparr>total_listings = 0, city_stats = []\<rparr>"

definition listings_count_of :: "pydict \<Rightarrow> int" where
  \<comment> \<open>The \<open>listings_count\<close> of one entry of \<open>city_stats\<close>; an entry without the key adds
      nothing to a sum.\<close>
  "listings_count_of d = (case map_of d ''listings_count'' of Some (PyInt n) \<Rightarrow> n | _ \<Rightarrow> 0)"

definition sum_listings_count :: "(string \<times> pydict) list \<Rightarrow> int" where
  "sum_listings_count stats = sum_list (map (\<lambda>(name, d). listings_count_of d) stats)"

section \<open>Notions used in the statements\<close>





definition failed_fetch :: "response \<Rightarrow> bool" where
  \<comment> \<open>The page outcomes \<open>TransportError\<close> and \<open>InvalidResponse\<close> of the specification: an
      exception while the page is fetched and read, or a body that is not an HTML page.\<close>
  "failed_fetch r = (case r of Response p \<Rightarrow> invalid_html (body p) | _ \<Rightarrow> True)"

definition parsed_page :: "response \<Rightarrow> bool" where
  \<comment> \<open>The outcome \<open>Parsed\<close>: a valid page on which listing nodes were found.\<close>
  "parsed_page r =
    (case r of Response p \<Rightarrow> \<not> invalid_html (body p) \<and> house_list_of p \<noteq> [] | _ \<Rightarrow> False)"

definition empty_page :: "response \<Rightarrow> bool" where
  \<comment> \<open>The outcome \<open>Empty\<close>: a valid page with no listing node under either selector.\<close>
  "empty_page r =
    (case r of Response p \<Rightarrow> \<not> invalid_html (body p) \<and> main_items p = [] \<and> listing_tiles p = []
     | _ \<Rightarrow> False)"

definition houses_on :: "response \<Rightarrow> house list" where
  "houses_on r = (case r of Response p \<Rightarrow> house_list_of p | _ \<Rightarrow> [])"

definition quiet :: "sleeps \<Rightarrow> pyfloat \<Rightarrow> bool" where
  \<comment> \<open>No call of \<open>time.sleep\<close> raises, as with every delay that is not negative and not
      longer than the platform can sleep.\<close>
  "quiet sl delay \<longleftrightarrow> (\<forall>p. jittered sl delay p = None \<and> penalty sl delay p = None)"

section \<open>Example inputs\<close>

definition example_house :: house where
  \<comment> \<open>A listing node with a price, a size and a location.\<close>
  "example_house =
    \<lparr>q_baths = Some ''2'', q_beds = Some ''3'', q_location = Some ''DHA Defence'',
     q_price = Some ''5'', q_size = Some ''5'', q_size_alt = None, q_property_type = None,
     q_date_added = None, q_reference = None\<rparr>"

definition example_listing :: "string \<Rightarrow> pydict" where
  \<comment> \<open>The record built from \<open>example_house\<close> at a given clock reading.\<close>
  "example_listing t =
    [(''location'', PyStr ''DHA Defence''), (''price'', PyInt 5), (''bedrooms'', PyInt 3),
     (''baths'', PyInt 2), (''size'', PyInt 5), (''property_type'', PyStr []),
     (''date_added'', PyStr []), (''original_listing_id'', PyStr []), (''scrape_date'', PyStr t)]"

definition bare_price_house :: house where
  \<comment> \<open>A listing node with a price, and neither a size nor a location.\<close>
  "bare_price_house =
    \<lparr>q_baths = None, q_beds = None, q_location = None, q_price = Some ''50 Lakh'',
     q_size = None, q_size_alt = None, q_property_type = None, q_date_added = None,
     q_reference = None\<rparr>"

definition infinite_price_house :: house where
  \<comment> \<open>A listing node whose price text is \<open>inf\<close>.\<close>
  "infinite_price_house = example_house\<lparr>q_price := Some ''inf''\<rparr>"

definition no_price_house :: house where
  \<comment> \<open>A listing node without a price.\<close>
  "no_price_house = example_house\<lparr>q_price := None\<rparr>"

definition page_of :: "house list \<Rightarrow> response" where
  \<comment> \<open>A valid page with the given listing nodes under the main selector.\<close>
  "page_of hs = Response \<lparr>body = ''<html></html>'', main_items = hs, listing_tiles = []\<rparr>"

definition two_pages :: "string \<Rightarrow> house list \<Rightarrow> house list \<Rightarrow> string \<Rightarrow> response" where
  \<comment> \<open>A site of two pages for a city; every other request times out.\<close>
  "two_pages city hs1 hs2 url =
    (if url = page_url city 1 then page_of hs1
     else if url = page_url city 2 then page_of hs2
     else RequestException ''timed out'')"

definition always_times_out :: "string \<Rightarrow> response" where
  "always_times_out url = RequestException ''timed out''"

definition fixed_clock :: "nat \<Rightarrow> string" where
  "fixed_clock k = ''2025-01-01T00:00:00''"

definition example_sleep :: "pyfloat \<Rightarrow> py_error option" where
  \<comment> \<open>A \<open>time.sleep\<close> that raises on a negative, NaN or infinite argument only.\<close>
  "example_sleep secs =
    (case secs of
       Finite m e \<Rightarrow> if m < 0 then Some (ValueError ''sleep length must be non-negative'') else None
     | NaN \<Rightarrow> Some (ValueError ''Invalid value NaN (not a number)'')
     | PInf \<Rightarrow> Some (OverflowError ''timestamp out of range for platform time_t'')
     | NInf \<Rightarrow> Some (OverflowError ''timestamp out of range for platform time_t''))"

definition example_sleeps :: sleeps where
  \<comment> \<open>The sleeps with a jitter of 1.\<close>
  "example_sleeps =
    \<lparr>jittered = (\<lambda>delay p. example_sleep (fmul delay (float_of_int 1))),
     penalty = (\<lambda>delay p. example_sleep (fmul delay (float_of_int 3)))\<rparr>"

definition price_location_house :: house where
  \<comment> \<open>A listing node with a price and a location, and nothing else.\<close>
  "price_location_house =
    \<lparr>q_baths = None, q_beds = None, q_location = Some ''Gulberg'', q_price = Some ''50 Lakh'',
     q_size = None, q_size_alt = None, q_property_type = None, q_date_added = None,
     q_reference = None\<rparr>"

definition two_cities_site :: "string \<Rightarrow> response" where
  \<comment> \<open>A site with one page of one listing for Lahore and for Karachi, an empty second page
      for both, and no answer to any other request.\<close>
  "two_cities_site url =
    (if url = page_url ''Lahore-1'' 1 \<or> url = page_url ''Karachi-2'' 1 then page_of [example_house]
     else if url = page_url ''Lahore-1'' 2 \<or> url = page_url ''Karachi-2'' 2 then page_of []
     else RequestException ''timed out'')"

definition failing_upload_world :: world where
  \<comment> \<open>A run in which the upload of the CSV file of Karachi raises.\<close>
  "failing_upload_world =
    \<lparr>http_get = two_cities_site,
     clock = (\<lambda>city. fixed_clock),
     upload = (\<lambda>name. if name = ''20250101_000000/karachi_data.csv''
                        then Some ''The specified container does not exist.'' else None),
     sleeping = (\<lambda>city. example_sleeps),
     elapsed = (\<lambda>name. Finite 3 0)\<rparr>"

section \<open>Facts about strings\<close>


lemma endswith_iff: "endswith s v \<longleftrightarrow> (\<exists>x. s = x @ v)"
proof
  assume "endswith s v"
  then have "s = take (length s - length v) s @ v"
    by (metis append_take_drop_id endswith_def)
  then show "\<exists>x. s = x @ v" ..
next
  assume "\<exists>x. s = x @ v"
  then show "endswith s v" by (auto simp: endswith_def)
qed

lemma endswith_append [simp]: "endswith (x @ u) u"
  by (auto simp: endswith_iff)

lemma drop_last_append [simp]: "drop_last (length u) (x @ u) = x"
  by (simp add: drop_last_def)







lemma lstrip_idem [simp]: "lstrip (lstrip s) = lstrip s"
  by (simp add: lstrip_def dropWhile_idem)

lemma strip_lstrip [simp]: "strip (lstrip s) = strip s"
  by (simp add: strip_def)





section \<open>Facts about rounding\<close>




section \<open>Facts about the strings \<open>float()\<close> accepts\<close>










lemma strtod_Nil [simp]: "strtod [] = None"
  by (simp add: strtod_def split_sign_def)













section \<open>The unit tables\<close>



lemma scaled_unparsed:
  assumes "py_float p = None"
  shows "except_value_type (round_float_times p k) = Inr 0"
  using assms by (simp add: round_float_times_def)












section \<open>Normalisation of prices and sizes\<close>

lemma normalised_or_overflow:
  "(\<exists>n. except_value_type (round_float_times p k) = Inr n)
    \<or> except_value_type (round_float_times p k)
        = Inl (OverflowError ''cannot convert float infinity to integer'')"
  "(\<exists>n. except_value_type (round_float p) = Inr n)
    \<or> except_value_type (round_float p)
        = Inl (OverflowError ''cannot convert float infinity to integer'')"
proof -
  have r: "(\<exists>n. except_value_type (py_round f) = Inr n)
    \<or> except_value_type (py_round f)
        = Inl (OverflowError ''cannot convert float infinity to integer'')" for f
    by (cases f) simp_all
  show "(\<exists>n. except_value_type (round_float_times p k) = Inr n)
    \<or> except_value_type (round_float_times p k)
        = Inl (OverflowError ''cannot convert float infinity to integer'')"
    using r by (cases "py_float p") (simp_all add: round_float_times_def)
  show "(\<exists>n. except_value_type (round_float p) = Inr n)
    \<or> except_value_type (round_float p)
        = Inl (OverflowError ''cannot convert float infinity to integer'')"
    using r by (cases "py_float p") (simp_all add: round_float_def)
qed







text \<open>
  C6. Totality of the normalisers. An empty string and a string whose number does not
  parse give 0, and \<open>ValueError\<close> never leaves either function; but \<open>OverflowError\<close> does:
  \<open>float\<close> reads \<open>inf\<close>, and every decimal too large for a float, as infinity, on which
  \<open>round\<close> raises \<open>OverflowError\<close>, which \<open>except (ValueError, TypeError)\<close> does not
  catch. That is the only exception either function lets through.
\<close>

theorem convert_raises_on_infinity:
  "convert_price ''inf'' = Inl (OverflowError ''cannot convert float infinity to integer'')
   \<and> convert_price ''  inf Crore'' = Inl (OverflowError ''cannot convert float infinity to integer'')
   \<and> convert_size ''inf'' = Inl (OverflowError ''cannot convert float infinity to integer'')
   \<and> convert_size ''Infinity Marla'' = Inl (OverflowError ''cannot convert float infinity to integer'')
   \<and> (\<forall>s. (\<exists>n. convert_price s = Inr n)
          \<or> convert_price s = Inl (OverflowError ''cannot convert float infinity to integer''))
   \<and> (\<forall>s. (\<exists>n. convert_size s = Inr n)
          \<or> convert_size s = Inl (OverflowError ''cannot convert float infinity to integer''))"
proof (intro conjI allI)
  show "convert_price ''inf'' = Inl (OverflowError ''cannot convert float infinity to integer'')"
    by code_simp
  show "convert_price ''  inf Crore'' = Inl (OverflowError ''cannot convert float infinity to integer'')"
    by code_simp
  show "convert_size ''inf'' = Inl (OverflowError ''cannot convert float infinity to integer'')"
    by code_simp
  show "convert_size ''Infinity Marla'' = Inl (OverflowError ''cannot convert float infinity to integer'')"
    by code_simp
next
  fix s
  show "(\<exists>n. convert_price s = Inr n)
      \<or> convert_price s = Inl (OverflowError ''cannot convert float infinity to integer'')"
    unfolding convert_price_def Let_def using normalised_or_overflow by simp
next
  fix s
  show "(\<exists>n. convert_size s = Inr n)
      \<or> convert_size s = Inl (OverflowError ''cannot convert float infinity to integer'')"
    unfolding convert_size_def Let_def using normalised_or_overflow by simp
qed

section \<open>Facts about the pagination loop\<close>


lemma scrap_loop_append:
  "scrap_loop get now sl city delay (ps @ qs) st =
    (case scrap_loop get now sl city delay ps st of
       Continue st' \<Rightarrow> scrap_loop get now sl city delay qs st'
     | Break st' \<Rightarrow> Break st'
     | Raise e st' \<Rightarrow> Raise e st')"
  by (induction ps arbitrary: st) (simp_all split: flow.splits)

lemma quietD:
  assumes "quiet sl delay"
  shows "jittered sl delay p = None" and "penalty sl delay p = None"
  using assms by (simp_all add: quiet_def)

lemma scrap_page_breaker:
  "max_consecutive_errors \<le> consecutive_errors st \<Longrightarrow> scrap_page get now sl city delay st p = Break st"
  by (simp add: scrap_page_def)

lemma scrap_page_failed:
  assumes "consecutive_errors st < max_consecutive_errors" "quiet sl delay"
    and "failed_fetch (get (page_url city p))"
  shows "scrap_page get now sl city delay st p =
    Continue (st\<lparr>requested := requested st @ [page_url city p],
                 consecutive_errors := consecutive_errors st + 1\<rparr>)"
  using assms
  by (cases "get (page_url city p)")
    (simp_all add: scrap_page_def after_error_def failed_fetch_def Let_def quietD)

lemma scrap_page_empty:
  assumes "consecutive_errors st < max_consecutive_errors" "quiet sl delay"
    and "empty_page (get (page_url city p))"
  shows "scrap_page get now sl city delay st p = Break (st\<lparr>requested := requested st @ [page_url city p]\<rparr>)"
  using assms
  by (cases "get (page_url city p)")
    (simp_all add: scrap_page_def empty_page_def house_list_of_def Let_def quietD)

lemma scrap_page_parsed:
  assumes "consecutive_errors st < max_consecutive_errors" "quiet sl delay"
    and "parsed_page (get (page_url city p))"
  shows "scrap_page get now sl city delay st p =
    (let st' = st\<lparr>requested := requested st @ [page_url city p],
                   house_info := process_houses now (houses_on (get (page_url city p))) (house_info st),
                   consecutive_errors := 0\<rparr>
     in if length (house_info st') = length (house_info st) then Break st' else Continue st')"
  using assms
  by (cases "get (page_url city p)")
    (simp_all add: scrap_page_def parsed_page_def houses_on_def Let_def quietD)

lemma outcome_cases:
  "failed_fetch r \<or> empty_page r \<or> parsed_page r"
  by (cases r) (auto simp: failed_fetch_def empty_page_def parsed_page_def house_list_of_def)

lemma process_houses_extends: "\<exists>ys. process_houses now hs acc = acc @ ys"
proof (induction hs arbitrary: acc)
  case Nil
  then show ?case by simp
next
  case (Cons h hs)
  show ?case
  proof (cases "house_listing (now (length acc)) h")
    case (Inl e)
    then show ?thesis using Cons [of acc] by simp
  next
    case (Inr r)
    show ?thesis
    proof (cases r)
      case None
      then show ?thesis using Inr Cons [of acc] by simp
    next
      case (Some l)
      obtain ys where "process_houses now hs (acc @ [l]) = (acc @ [l]) @ ys"
        using Cons [of "acc @ [l]"] by blast
      then show ?thesis using Inr Some by simp
    qed
  qed
qed

lemma process_houses_same_length:
  assumes "length (process_houses now hs acc) = length acc"
  shows "process_houses now hs acc = acc"
proof -
  obtain ys where ys: "process_houses now hs acc = acc @ ys"
    using process_houses_extends by blast
  with assms have "ys = []" by simp
  with ys show ?thesis by simp
qed

lemma process_houses_none:
  assumes "\<forall>h\<in>set hs. \<forall>t l. house_listing t h \<noteq> Inr (Some l)"
  shows "process_houses now hs acc = acc"
  using assms
proof (induction hs)
  case Nil
  then show ?case by simp
next
  case (Cons h hs)
  then have "\<forall>l. house_listing (now (length acc)) h \<noteq> Inr (Some l)" by simp
  then show ?case using Cons by (simp split: sum.splits option.splits)
qed

lemma after_error_extends:
  "house_info (final_state (after_error sl delay p st)) = house_info st"
  by (simp add: after_error_def Let_def split: option.splits)

lemma scrap_page_extends:
  "\<exists>ys. house_info (final_state (scrap_page get now sl city delay st p)) = house_info st @ ys"
proof (cases "max_consecutive_errors \<le> consecutive_errors st")
  case True
  then show ?thesis by (simp add: scrap_page_breaker)
next
  case False
  show ?thesis
  proof (cases "jittered sl delay p")
    case (Some e)
    then show ?thesis using False by (simp add: scrap_page_def after_error_extends)
  next
    case None
    show ?thesis
    proof (cases "get (page_url city p)")
      case (RequestException m)
      then show ?thesis using False None by (simp add: scrap_page_def after_error_extends)
    next
      case (OtherException m)
      then show ?thesis using False None by (simp add: scrap_page_def after_error_extends)
    next
      case (Response pg)
      obtain ys where "process_houses now (house_list_of pg) (house_info st) = house_info st @ ys"
        using process_houses_extends by blast
      then show ?thesis using False None Response by (simp add: scrap_page_def Let_def)
    qed
  qed
qed

lemma scrap_loop_extends:
  "\<exists>ys. house_info (final_state (scrap_loop get now sl city delay ps st)) = house_info st @ ys"
proof (induction ps arbitrary: st)
  case Nil
  then show ?case by simp
next
  case (Cons p ps)
  obtain ys where ys: "house_info (final_state (scrap_page get now sl city delay st p)) = house_info st @ ys"
    using scrap_page_extends by blast
  show ?case
  proof (cases "scrap_page get now sl city delay st p")
    case (Continue st')
    obtain zs where "house_info (final_state (scrap_loop get now sl city delay ps st')) = house_info st' @ zs"
      using Cons by blast
    then show ?thesis using Continue ys by simp
  next
    case (Break st')
    then show ?thesis using ys by simp
  next
    case (Raise e st')
    then show ?thesis using ys by simp
  qed
qed

lemma scrap_page_no_raise:
  "quiet sl delay \<Longrightarrow> scrap_page get now sl city delay st p \<noteq> Raise e st'"
  by (cases "get (page_url city p)")
    (simp_all add: scrap_page_def after_error_def Let_def quietD)

lemma scrap_loop_no_raise:
  "quiet sl delay \<Longrightarrow> scrap_loop get now sl city delay ps st \<noteq> Raise e st'"
proof (induction ps arbitrary: st)
  case Nil
  then show ?case by simp
next
  case (Cons p ps)
  then show ?case
    by (cases "scrap_page get now sl city delay st p") (simp_all add: scrap_page_no_raise)
qed

lemma returned_no_raise:
  "quiet sl delay \<Longrightarrow>
    returned (scrap_loop get now sl city delay ps st)
      = Inr (house_info (final_state (scrap_loop get now sl city delay ps st)))"
proof (cases "scrap_loop get now sl city delay ps st")
  case (Raise e st')
  assume "quiet sl delay"
  from scrap_loop_no_raise [OF this] Raise show ?thesis by blast
qed simp_all

lemma scrap_page_continue_requested:
  assumes "quiet sl delay" "scrap_page get now sl city delay st p = Continue st'"
  shows "requested st' = requested st @ [page_url city p]"
  using assms
  by (cases "get (page_url city p)")
    (auto simp: scrap_page_def after_error_def Let_def quietD split: if_splits)

lemma scrap_loop_continue_requested:
  assumes "quiet sl delay" "scrap_loop get now sl city delay ps st = Continue st'"
  shows "requested st' = requested st @ map (page_url city) ps"
  using assms(2)
proof (induction ps arbitrary: st)
  case Nil
  then show ?case by simp
next
  case (Cons p ps)
  then obtain st1 where 1: "scrap_page get now sl city delay st p = Continue st1"
    and 2: "scrap_loop get now sl city delay ps st1 = Continue st'"
    by (auto split: flow.splits)
  from Cons.IH [OF 2] scrap_page_continue_requested [OF assms(1) 1] show ?case by simp
qed


lemma run_from_page:
  assumes "1 \<le> N" "N \<le> pages_range"
    and "scrap_loop get now sl city delay [1..N - 1] scrap_init = Continue st"
  shows "scrap_run get now sl city pages_range delay =
    (case scrap_page get now sl city delay st N of
       Continue st' \<Rightarrow> scrap_loop get now sl city delay [N + 1..pages_range] st'
     | Break st' \<Rightarrow> Break st'
     | Raise e st' \<Rightarrow> Raise e st')"
proof -
  have "[1..pages_range] = [1..N - 1] @ N # [N + 1..pages_range]"
    using assms(1,2) by (rule upto_split3)
  then show ?thesis
    using assms(3) by (simp add: scrap_run_def scrap_loop_append)
qed

lemma reached_requested:
  assumes "quiet sl delay" "scrap_loop get now sl city delay [1..N - 1] scrap_init = Continue st"
  shows "requested st = map (page_url city) [1..N - 1]"
  using scrap_loop_continue_requested [OF assms] by (simp add: scrap_init_def)

lemma upto_snoc: "1 \<le> N \<Longrightarrow> [1..N - 1] @ [N] = [1..N]"
  using upto_rec2 [of 1 N] by simp

lemma breaker_run:
  assumes "\<forall>p\<in>set ps. failed_fetch (get (page_url city p))" "quiet sl delay"
    and "max_consecutive_errors \<le> consecutive_errors st + length ps"
  shows "house_info (final_state (scrap_loop get now sl city delay (ps @ rest) st)) = house_info st
    \<and> requested (final_state (scrap_loop get now sl city delay (ps @ rest) st))
        = requested st @ map (page_url city) (take (max_consecutive_errors - consecutive_errors st) ps)"
  using assms
proof (induction ps arbitrary: st)
  case Nil
  then have ce: "max_consecutive_errors \<le> consecutive_errors st" by simp
  show ?case by (cases rest) (simp_all add: scrap_page_breaker [OF ce])
next
  case (Cons p ps)
  show ?case
  proof (cases "max_consecutive_errors \<le> consecutive_errors st")
    case True
    then show ?thesis by (simp add: scrap_page_breaker)
  next
    case False
    then have ce: "consecutive_errors st < max_consecutive_errors" by simp
    define st1 where "st1 = st\<lparr>requested := requested st @ [page_url city p],
        consecutive_errors := consecutive_errors st + 1\<rparr>"
    have f: "failed_fetch (get (page_url city p))" using Cons.prems(1) by simp
    have page: "scrap_page get now sl city delay st p = Continue st1"
      using ce Cons.prems(2) f by (simp add: scrap_page_failed st1_def)
    have "max_consecutive_errors \<le> consecutive_errors st1 + length ps"
      using Cons.prems(3) by (simp add: st1_def)
    with Cons.IH [of st1] Cons.prems(1,2)
    have ih: "house_info (final_state (scrap_loop get now sl city delay (ps @ rest) st1)) = house_info st1"
      "requested (final_state (scrap_loop get now sl city delay (ps @ rest) st1))
        = requested st1 @ map (page_url city) (take (max_consecutive_errors - consecutive_errors st1) ps)"
      by simp_all
    have t: "max_consecutive_errors - consecutive_errors st
        = Suc (max_consecutive_errors - consecutive_errors st1)"
      using ce by (simp add: st1_def)
    show ?thesis using page ih by (simp add: t) (simp add: st1_def)
  qed
qed


lemma stop_at_empty:
  assumes "1 \<le> N" "N \<le> pages_range"
    and "scrap_loop get now sl city delay [1..N - 1] scrap_init = Continue st"
    and "consecutive_errors st < max_consecutive_errors" "quiet sl delay"
    and "empty_page (get (page_url city N))"
  shows "scrap_run get now sl city pages_range delay
      = Break (st\<lparr>requested := requested st @ [page_url city N]\<rparr>)"
    and "scrap get now sl city pages_range delay = Inr (house_info st)"
    and "requested (final_state (scrap_run get now sl city pages_range delay))
      = map (page_url city) [1..N]"
proof -
  show run: "scrap_run get now sl city pages_range delay
      = Break (st\<lparr>requested := requested st @ [page_url city N]\<rparr>)"
    using run_from_page [OF assms(1-3)] scrap_page_empty [where get = get and city = city and p = N, OF assms(4-6)] by simp
  then show "scrap get now sl city pages_range delay = Inr (house_info st)"
    by (simp add: scrap_def)
  have "map (page_url city) [1..N - 1] @ [page_url city N] = map (page_url city) ([1..N - 1] @ [N])"
    by simp
  then show "requested (final_state (scrap_run get now sl city pages_range delay))
      = map (page_url city) [1..N]"
    using run reached_requested [OF assms(5) assms(3)] upto_snoc [OF assms(1)] by simp
qed

lemma stop_at_duplicate:
  assumes "1 \<le> N" "N \<le> pages_range"
    and "scrap_loop get now sl city delay [1..N - 1] scrap_init = Continue st"
    and "consecutive_errors st < max_consecutive_errors" "quiet sl delay"
    and "parsed_page (get (page_url city N))"
    and "length (process_houses now (houses_on (get (page_url city N))) (house_info st))
      = length (house_info st)"
  shows "scrap_run get now sl city pages_range delay
      = Break (st\<lparr>requested := requested st @ [page_url city N], consecutive_errors := 0\<rparr>)"
    and "scrap get now sl city pages_range delay = Inr (house_info st)"
    and "requested (final_state (scrap_run get now sl city pages_range delay))
      = map (page_url city) [1..N]"
proof -
  have same: "process_houses now (houses_on (get (page_url city N))) (house_info st) = house_info st"
    using assms(7) by (rule process_houses_same_length)
  have "scrap_page get now sl city delay st N
      = Break (st\<lparr>requested := requested st @ [page_url city N], consecutive_errors := 0\<rparr>)"
    using scrap_page_parsed [where get = get and city = city and p = N and now = now, OF assms(4-6)] by (simp add: same Let_def)
  then show run: "scrap_run get now sl city pages_range delay
      = Break (st\<lparr>requested := requested st @ [page_url city N], consecutive_errors := 0\<rparr>)"
    using run_from_page [OF assms(1-3)] by simp
  then show "scrap get now sl city pages_range delay = Inr (house_info st)"
    by (simp add: scrap_def)
  have "map (page_url city) [1..N - 1] @ [page_url city N] = map (page_url city) ([1..N - 1] @ [N])"
    by simp
  then show "requested (final_state (scrap_run get now sl city pages_range delay))
      = map (page_url city) [1..N]"
    using run reached_requested [OF assms(5) assms(3)] upto_snoc [OF assms(1)] by simp
qed

lemma parsed_resets_counter:
  assumes "consecutive_errors st < max_consecutive_errors" "quiet sl delay"
    and "parsed_page (get (page_url city N))"
  shows "consecutive_errors (final_state (scrap_page get now sl city delay st N)) = 0"
  using scrap_page_parsed [where get = get and city = city and p = N and now = now, OF assms] by (simp add: Let_def)

lemma stop_at_breaker:
  assumes "1 \<le> N" "N + 2 \<le> pages_range"
    and "scrap_loop get now sl city delay [1..N - 1] scrap_init = Continue st"
    and "quiet sl delay"
    and "failed_fetch (get (page_url city N))" "failed_fetch (get (page_url city (N + 1)))"
      "failed_fetch (get (page_url city (N + 2)))"
  shows "scrap get now sl city pages_range delay = Inr (house_info st)"
    and "house_info (final_state (scrap_run get now sl city pages_range delay)) = house_info st"
    and "requested (final_state (scrap_run get now sl city pages_range delay))
      = map (page_url city)
          ([1..N - 1] @ take (max_consecutive_errors - consecutive_errors st) [N, N + 1, N + 2])"
proof -
  have "[1..pages_range] = [1..N - 1] @ [N..pages_range]"
    using assms(1,2) upto_split1 [of 1 N pages_range] by simp
  moreover have "[N..pages_range] = [N, N + 1, N + 2] @ [N + 3..pages_range]"
    using assms(2) by (simp add: upto_rec1 add.commute)
  ultimately have run: "scrap_run get now sl city pages_range delay
      = scrap_loop get now sl city delay ([N, N + 1, N + 2] @ [N + 3..pages_range]) st"
    using assms(3) by (simp add: scrap_run_def scrap_loop_append del: append.simps)
  have b: "house_info (final_state (scrap_loop get now sl city delay
        ([N, N + 1, N + 2] @ [N + 3..pages_range]) st)) = house_info st
    \<and> requested (final_state (scrap_loop get now sl city delay
        ([N, N + 1, N + 2] @ [N + 3..pages_range]) st))
      = requested st @ map (page_url city)
          (take (max_consecutive_errors - consecutive_errors st) [N, N + 1, N + 2])"
    by (rule breaker_run) (use assms in \<open>simp_all add: max_consecutive_errors_def\<close>)
  show h: "house_info (final_state (scrap_run get now sl city pages_range delay)) = house_info st"
    using b by (simp only: run)
  show "requested (final_state (scrap_run get now sl city pages_range delay))
      = map (page_url city)
          ([1..N - 1] @ take (max_consecutive_errors - consecutive_errors st) [N, N + 1, N + 2])"
    using b reached_requested [OF assms(4) assms(3)] by (simp only: run map_append)
  show "scrap get now sl city pages_range delay = Inr (house_info st)"
    using returned_no_raise [OF assms(4), of get now city "[1..pages_range]" scrap_init] h
    by (simp add: scrap_def scrap_run_def)
qed

lemma scrap_page_raise_penalty:
  assumes "scrap_page get now sl city delay st p = Raise e st'"
  shows "penalty sl delay p = Some e"
  using assms
  by (cases "jittered sl delay p"; cases "get (page_url city p)")
    (auto simp: scrap_page_def after_error_def Let_def split: if_splits option.splits)

lemma scrap_loop_raise_penalty:
  assumes "scrap_loop get now sl city delay ps st = Raise e st'"
  shows "\<exists>p. penalty sl delay p = Some e"
  using assms
proof (induction ps arbitrary: st)
  case Nil
  then show ?case by simp
next
  case (Cons p ps)
  show ?case
  proof (cases "scrap_page get now sl city delay st p")
    case (Continue st1)
    then show ?thesis using Cons by simp
  next
    case (Break st1)
    then show ?thesis using Cons.prems by simp
  next
    case (Raise e1 st1)
    then have "e1 = e" using Cons.prems by simp
    then show ?thesis using Raise scrap_page_raise_penalty by blast
  qed
qed

section \<open>Pagination: the stop conditions\<close>


text \<open>
  C1. The circuit breaker. Let no call of \<open>time.sleep\<close> raise, let the loop of \<open>scrap\<close>
  reach page \<open>N\<close> in state \<open>st\<close>, and let the fetches of pages \<open>N\<close>, \<open>N + 1\<close> and \<open>N + 2\<close> fail
  (an exception, or a body that is not an HTML page). Then \<open>scrap\<close> returns exactly the listings accumulated before page \<open>N\<close>,
  and it requests no page after the failure that brings the counter of consecutive
  errors to 3: of the three pages it requests the first \<open>3 - consecutive_errors st\<close>, and
  nothing after them. In particular, when pages 1 to 3 fail, \<open>scrap\<close> returns the empty
  list after exactly three requests, whatever \<open>pages_range \<ge> 3\<close> is.
\<close>

theorem circuit_breaker_halts:
  "(\<forall>N st.
      1 \<le> N \<longrightarrow> N + 2 \<le> pages_range \<longrightarrow>
      scrap_loop get now sl city delay [1..N - 1] scrap_init = Continue st \<longrightarrow>
      quiet sl delay \<longrightarrow>
      failed_fetch (get (page_url city N)) \<longrightarrow>
      failed_fetch (get (page_url city (N + 1))) \<longrightarrow>
      failed_fetch (get (page_url city (N + 2))) \<longrightarrow>
        scrap get now sl city pages_range delay = Inr (house_info st)
        \<and> house_info (final_state (scrap_run get now sl city pages_range delay)) = house_info st
        \<and> requested (final_state (scrap_run get now sl city pages_range delay))
            = map (page_url city)
                ([1..N - 1] @ take (max_consecutive_errors - consecutive_errors st) [N, N + 1, N + 2]))
   \<and> (3 \<le> pages_range \<longrightarrow> quiet sl delay \<longrightarrow>
        failed_fetch (get (page_url city 1)) \<longrightarrow>
        failed_fetch (get (page_url city 2)) \<longrightarrow>
        failed_fetch (get (page_url city 3)) \<longrightarrow>
          scrap get now sl city pages_range delay = Inr []
          \<and> requested (final_state (scrap_run get now sl city pages_range delay))
              = [page_url city 1, page_url city 2, page_url city 3])"
proof (intro conjI allI impI)
  fix N st
  assume a: "1 \<le> N" "N + 2 \<le> pages_range"
    "scrap_loop get now sl city delay [1..N - 1] scrap_init = Continue st"
    "quiet sl delay"
    "failed_fetch (get (page_url city N))" "failed_fetch (get (page_url city (N + 1)))"
    "failed_fetch (get (page_url city (N + 2)))"
  show "scrap get now sl city pages_range delay = Inr (house_info st)"
    using a by (rule stop_at_breaker(1))
  show "house_info (final_state (scrap_run get now sl city pages_range delay)) = house_info st"
    using a by (rule stop_at_breaker(2))
  show "requested (final_state (scrap_run get now sl city pages_range delay))
      = map (page_url city)
          ([1..N - 1] @ take (max_consecutive_errors - consecutive_errors st) [N, N + 1, N + 2])"
    using a by (rule stop_at_breaker(3))
next
  assume a: "3 \<le> pages_range" "quiet sl delay"
    "failed_fetch (get (page_url city 1))" "failed_fetch (get (page_url city 2))"
    "failed_fetch (get (page_url city 3))"
  have r: "scrap_loop get now sl city delay [1..1 - 1] scrap_init = Continue scrap_init" by simp
  have one: "(1::int) \<le> 1" by simp
  have n: "1 + 2 \<le> pages_range" using a(1) by simp
  have f2: "failed_fetch (get (page_url city (1 + 1)))" using a(4) by simp
  have f3: "failed_fetch (get (page_url city (1 + 2)))" using a(5) by simp
  show "scrap get now sl city pages_range delay = Inr []"
    using stop_at_breaker(1) [OF one n r a(2) a(3) f2 f3] by (simp add: scrap_init_def)
  show "requested (final_state (scrap_run get now sl city pages_range delay))
      = [page_url city 1, page_url city 2, page_url city 3]"
    using stop_at_breaker(3) [OF one n r a(2) a(3) f2 f3]
    by (simp add: scrap_init_def max_consecutive_errors_def)
qed

theorem circuit_breaker_halts_witness:
  "quiet example_sleeps (Finite 5 (- 1))
   \<and> scrap_loop (two_pages ''Lahore-1'' [example_house] [example_house]) fixed_clock example_sleeps ''Lahore-1''
        (Finite 5 (- 1)) [1..3 - 1] scrap_init
      = Continue \<lparr>house_info = [example_listing ''2025-01-01T00:00:00'',
                                 example_listing ''2025-01-01T00:00:00''],
          consecutive_errors = 0,
          requested = [page_url ''Lahore-1'' 1, page_url ''Lahore-1'' 2]\<rparr>
   \<and> failed_fetch (two_pages ''Lahore-1'' [example_house] [example_house] (page_url ''Lahore-1'' 3))
   \<and> failed_fetch (two_pages ''Lahore-1'' [example_house] [example_house] (page_url ''Lahore-1'' 4))
   \<and> failed_fetch (two_pages ''Lahore-1'' [example_house] [example_house] (page_url ''Lahore-1'' 5))
   \<and> scrap (two_pages ''Lahore-1'' [example_house] [example_house]) fixed_clock example_sleeps ''Lahore-1'' 10
        (Finite 5 (- 1))
      = Inr [example_listing ''2025-01-01T00:00:00'', example_listing ''2025-01-01T00:00:00'']
   \<and> requested (final_state (scrap_run (two_pages ''Lahore-1'' [example_house] [example_house])
          fixed_clock example_sleeps ''Lahore-1'' 10 (Finite 5 (- 1))))
      = [page_url ''Lahore-1'' 1, page_url ''Lahore-1'' 2, page_url ''Lahore-1'' 3,
         page_url ''Lahore-1'' 4, page_url ''Lahore-1'' 5]
   \<and> scrap always_times_out fixed_clock example_sleeps ''Lahore-1'' 10 (Finite 5 (- 1)) = Inr []
   \<and> requested (final_state (scrap_run always_times_out fixed_clock example_sleeps ''Lahore-1'' 10 (Finite 5 (- 1))))
      = [page_url ''Lahore-1'' 1, page_url ''Lahore-1'' 2, page_url ''Lahore-1'' 3]"
proof -
  let ?get = "two_pages ''Lahore-1'' [example_house] [example_house]"
  let ?st = "\<lparr>house_info = [example_listing ''2025-01-01T00:00:00'',
        example_listing ''2025-01-01T00:00:00''],
      consecutive_errors = 0,
      requested = [page_url ''Lahore-1'' 1, page_url ''Lahore-1'' 2]\<rparr>"
  have s: "quiet example_sleeps (Finite 5 (- 1))" by (simp add: quiet_def example_sleeps_def) code_simp
  have r: "scrap_loop ?get fixed_clock example_sleeps ''Lahore-1'' (Finite 5 (- 1)) [1..3 - 1] scrap_init = Continue ?st"
    by code_simp
  have f3: "failed_fetch (?get (page_url ''Lahore-1'' 3))" by code_simp
  have f4: "failed_fetch (?get (page_url ''Lahore-1'' 4))" by code_simp
  have f5: "failed_fetch (?get (page_url ''Lahore-1'' 5))" by code_simp
  have f4': "failed_fetch (?get (page_url ''Lahore-1'' (3 + 1)))" using f4 by simp
  have f5': "failed_fetch (?get (page_url ''Lahore-1'' (3 + 2)))" using f5 by simp
  have n: "(1::int) \<le> 3" "(3::int) + 2 \<le> 10" by simp_all
  note g = circuit_breaker_halts [where pages_range = 10 and get = ?get
      and city = "''Lahore-1''" and delay = "Finite 5 (- 1)" and now = fixed_clock and sl = example_sleeps,
      THEN conjunct1, rule_format, OF n r s f3 f4' f5']
  have g1: "scrap ?get fixed_clock example_sleeps ''Lahore-1'' 10 (Finite 5 (- 1))
      = Inr [example_listing ''2025-01-01T00:00:00'', example_listing ''2025-01-01T00:00:00'']"
    using g [THEN conjunct1] by simp
  have g2: "requested (final_state (scrap_run ?get fixed_clock example_sleeps ''Lahore-1'' 10 (Finite 5 (- 1))))
      = [page_url ''Lahore-1'' 1, page_url ''Lahore-1'' 2, page_url ''Lahore-1'' 3,
         page_url ''Lahore-1'' 4, page_url ''Lahore-1'' 5]"
    using g [THEN conjunct2, THEN conjunct2]
    by (simp add: max_consecutive_errors_def upto_rec1)
  have f: "failed_fetch (always_times_out u)" for u
    by (simp add: always_times_out_def failed_fetch_def)
  have p: "(3::int) \<le> 10" by simp
  note w = circuit_breaker_halts [where pages_range = 10 and get = always_times_out
      and city = "''Lahore-1''" and delay = "Finite 5 (- 1)" and now = fixed_clock and sl = example_sleeps,
      THEN conjunct2, rule_format, OF p s f f f]
  show ?thesis
    using s r f3 f4 f5 g1 g2 w [THEN conjunct1] w [THEN conjunct2] by (intro conjI)
qed

text \<open>
  C3. The empty page. Let no call of \<open>time.sleep\<close> raise, let the loop reach page \<open>N\<close> in
  state \<open>st\<close> and request it, and let the page be valid HTML with no listing node under either selector. Then the loop stops
  there: \<open>scrap\<close> returns the listings accumulated so far, the pages requested are 1 to
  \<open>N\<close>, and nothing else of the state changes. In particular, when page 1 yields 20
  records and page 2 is empty, \<open>scrap\<close> returns 20 records after exactly two requests.
\<close>

theorem empty_page_stops:
  "(\<forall>N st.
      1 \<le> N \<longrightarrow> N \<le> pages_range \<longrightarrow>
      scrap_loop get now sl city delay [1..N - 1] scrap_init = Continue st \<longrightarrow>
      consecutive_errors st < max_consecutive_errors \<longrightarrow> quiet sl delay \<longrightarrow>
      empty_page (get (page_url city N)) \<longrightarrow>
        scrap_run get now sl city pages_range delay
          = Break (st\<lparr>requested := requested st @ [page_url city N]\<rparr>)
        \<and> scrap get now sl city pages_range delay = Inr (house_info st)
        \<and> requested (final_state (scrap_run get now sl city pages_range delay))
            = map (page_url city) [1..N])
   \<and> (2 \<le> pages_range \<longrightarrow> quiet sl delay \<longrightarrow>
        parsed_page (get (page_url city 1)) \<longrightarrow>
        length (process_houses now (houses_on (get (page_url city 1))) []) = 20 \<longrightarrow>
        empty_page (get (page_url city 2)) \<longrightarrow>
          (\<exists>l. scrap get now sl city pages_range delay = Inr l \<and> length l = 20)
          \<and> requested (final_state (scrap_run get now sl city pages_range delay))
              = [page_url city 1, page_url city 2])"
proof (intro conjI allI impI)
  fix N st
  assume a: "1 \<le> N" "N \<le> pages_range"
    "scrap_loop get now sl city delay [1..N - 1] scrap_init = Continue st"
    "consecutive_errors st < max_consecutive_errors" "quiet sl delay"
    "empty_page (get (page_url city N))"
  show "scrap_run get now sl city pages_range delay
      = Break (st\<lparr>requested := requested st @ [page_url city N]\<rparr>)"
    using a by (rule stop_at_empty(1))
  show "scrap get now sl city pages_range delay = Inr (house_info st)"
    using a by (rule stop_at_empty(2))
  show "requested (final_state (scrap_run get now sl city pages_range delay))
      = map (page_url city) [1..N]"
    using a by (rule stop_at_empty(3))
next
  assume a: "2 \<le> pages_range" "quiet sl delay"
    "parsed_page (get (page_url city 1))"
    "length (process_houses now (houses_on (get (page_url city 1))) []) = 20"
    "empty_page (get (page_url city 2))"
  define st where "st = scrap_init\<lparr>requested := requested scrap_init @ [page_url city 1],
      house_info := process_houses now (houses_on (get (page_url city 1))) (house_info scrap_init),
      consecutive_errors := 0\<rparr>"
  have ce0: "consecutive_errors scrap_init < max_consecutive_errors"
    by (simp add: scrap_init_def max_consecutive_errors_def)
  have ne: "process_houses now (houses_on (get (page_url city 1))) [] \<noteq> []"
    using a(4) by auto
  have "scrap_page get now sl city delay scrap_init 1 = Continue st"
    using scrap_page_parsed [where get = get and city = city and p = 1 and now = now, OF ce0 a(2,3)] ne
    by (simp add: Let_def st_def scrap_init_def)
  then have r: "scrap_loop get now sl city delay [1..2 - 1] scrap_init = Continue st"
    by simp
  have ce: "consecutive_errors st < max_consecutive_errors"
    by (simp add: st_def max_consecutive_errors_def)
  have two: "(1::int) \<le> 2" by simp
  have len: "length (house_info st) = 20" using a(4) by (simp add: st_def scrap_init_def)
  from stop_at_empty(2) [OF two a(1) r ce a(2) a(5)] len
  show "\<exists>l. scrap get now sl city pages_range delay = Inr l \<and> length l = 20" by simp
  from stop_at_empty(3) [OF two a(1) r ce a(2) a(5)]
  show "requested (final_state (scrap_run get now sl city pages_range delay))
      = [page_url city 1, page_url city 2]"
    by (simp add: upto_rec1)
qed


theorem empty_page_stops_witness:
  "quiet example_sleeps (Finite 5 (- 1))
   \<and> parsed_page (two_pages ''Lahore-1'' (replicate 20 example_house) [] (page_url ''Lahore-1'' 1))
   \<and> empty_page (two_pages ''Lahore-1'' (replicate 20 example_house) [] (page_url ''Lahore-1'' 2))
   \<and> (\<exists>l. scrap (two_pages ''Lahore-1'' (replicate 20 example_house) []) fixed_clock example_sleeps
          ''Lahore-1'' 10 (Finite 5 (- 1)) = Inr l \<and> length l = 20)
   \<and> requested (final_state (scrap_run (two_pages ''Lahore-1'' (replicate 20 example_house) [])
          fixed_clock example_sleeps ''Lahore-1'' 10 (Finite 5 (- 1))))
      = [page_url ''Lahore-1'' 1, page_url ''Lahore-1'' 2]"
proof -
  have s: "quiet example_sleeps (Finite 5 (- 1))" by (simp add: quiet_def example_sleeps_def) code_simp
  have p1: "parsed_page (two_pages ''Lahore-1'' (replicate 20 example_house) [] (page_url ''Lahore-1'' 1))"
    by code_simp
  have p2: "empty_page (two_pages ''Lahore-1'' (replicate 20 example_house) [] (page_url ''Lahore-1'' 2))"
    by code_simp
  have n: "length (process_houses fixed_clock
      (houses_on (two_pages ''Lahore-1'' (replicate 20 example_house) [] (page_url ''Lahore-1'' 1))) []) = 20"
    by code_simp
  have p: "(2::int) \<le> 10" by simp
  note w = empty_page_stops [where pages_range = 10
      and get = "two_pages ''Lahore-1'' (replicate 20 example_house) []"
      and city = "''Lahore-1''" and delay = "Finite 5 (- 1)" and now = fixed_clock and sl = example_sleeps,
      THEN conjunct2, rule_format, OF p s p1 n p2]
  show ?thesis using s p1 p2 w by (simp only: simp_thms)
qed

text \<open>
  C2. Duplicate or last-page detection. Let no call of \<open>time.sleep\<close> raise, let the loop
  reach page \<open>N\<close> in state \<open>st\<close> and request it, and let the page be valid HTML on which
  listing nodes are found. If the
  accumulator is as long after the nodes are processed as it was before, the loop stops
  there: \<open>scrap\<close> returns the accumulator unchanged, the pages requested are 1 to \<open>N\<close>, and
  the counter of consecutive errors is 0. That is so in particular when no node of the
  page yields a record. On every such page, stopping or not, the counter is 0 when the
  iteration ends.
\<close>

theorem duplicate_page_stops:
  "(\<forall>N st.
      1 \<le> N \<longrightarrow> N \<le> pages_range \<longrightarrow>
      scrap_loop get now sl city delay [1..N - 1] scrap_init = Continue st \<longrightarrow>
      consecutive_errors st < max_consecutive_errors \<longrightarrow> quiet sl delay \<longrightarrow>
      parsed_page (get (page_url city N)) \<longrightarrow>
      length (process_houses now (houses_on (get (page_url city N))) (house_info st))
        = length (house_info st) \<longrightarrow>
        scrap_run get now sl city pages_range delay
          = Break (st\<lparr>requested := requested st @ [page_url city N], consecutive_errors := 0\<rparr>)
        \<and> scrap get now sl city pages_range delay = Inr (house_info st)
        \<and> requested (final_state (scrap_run get now sl city pages_range delay))
            = map (page_url city) [1..N])
   \<and> (\<forall>N st.
      1 \<le> N \<longrightarrow> N \<le> pages_range \<longrightarrow>
      scrap_loop get now sl city delay [1..N - 1] scrap_init = Continue st \<longrightarrow>
      consecutive_errors st < max_consecutive_errors \<longrightarrow> quiet sl delay \<longrightarrow>
      parsed_page (get (page_url city N)) \<longrightarrow>
      (\<forall>h\<in>set (houses_on (get (page_url city N))). \<forall>t l. house_listing t h \<noteq> Inr (Some l)) \<longrightarrow>
        scrap_run get now sl city pages_range delay
          = Break (st\<lparr>requested := requested st @ [page_url city N], consecutive_errors := 0\<rparr>)
        \<and> scrap get now sl city pages_range delay = Inr (house_info st))
   \<and> (\<forall>N (st :: scrap_state).
      consecutive_errors st < max_consecutive_errors \<longrightarrow> quiet sl delay \<longrightarrow>
      parsed_page (get (page_url city N)) \<longrightarrow>
        consecutive_errors (final_state (scrap_page get now sl city delay st N)) = 0)"
proof (intro conjI allI impI)
  fix N st
  assume a: "1 \<le> N" "N \<le> pages_range"
    "scrap_loop get now sl city delay [1..N - 1] scrap_init = Continue st"
    "consecutive_errors st < max_consecutive_errors" "quiet sl delay"
    "parsed_page (get (page_url city N))"
    "length (process_houses now (houses_on (get (page_url city N))) (house_info st))
      = length (house_info st)"
  show "scrap_run get now sl city pages_range delay
      = Break (st\<lparr>requested := requested st @ [page_url city N], consecutive_errors := 0\<rparr>)"
    using a by (rule stop_at_duplicate(1))
  show "scrap get now sl city pages_range delay = Inr (house_info st)"
    using a by (rule stop_at_duplicate(2))
  show "requested (final_state (scrap_run get now sl city pages_range delay))
      = map (page_url city) [1..N]"
    using a by (rule stop_at_duplicate(3))
next
  fix N st
  assume a: "1 \<le> N" "N \<le> pages_range"
    "scrap_loop get now sl city delay [1..N - 1] scrap_init = Continue st"
    "consecutive_errors st < max_consecutive_errors" "quiet sl delay"
    "parsed_page (get (page_url city N))"
    and none: "\<forall>h\<in>set (houses_on (get (page_url city N))). \<forall>t l. house_listing t h \<noteq> Inr (Some l)"
  have len: "length (process_houses now (houses_on (get (page_url city N))) (house_info st))
      = length (house_info st)"
    using process_houses_none [OF none] by simp
  show "scrap_run get now sl city pages_range delay
      = Break (st\<lparr>requested := requested st @ [page_url city N], consecutive_errors := 0\<rparr>)"
    using a len by (rule stop_at_duplicate(1))
  show "scrap get now sl city pages_range delay = Inr (house_info st)"
    using a len by (rule stop_at_duplicate(2))
next
  fix N and st :: scrap_state
  assume "consecutive_errors st < max_consecutive_errors" "quiet sl delay"
    "parsed_page (get (page_url city N))"
  then show "consecutive_errors (final_state (scrap_page get now sl city delay st N)) = 0"
    by (rule parsed_resets_counter)
qed

theorem duplicate_page_stops_witness:
  "quiet example_sleeps (Finite 5 (- 1))
   \<and> parsed_page (two_pages ''Lahore-1'' [example_house] [no_price_house] (page_url ''Lahore-1'' 2))
   \<and> scrap_loop (two_pages ''Lahore-1'' [example_house] [no_price_house]) fixed_clock example_sleeps ''Lahore-1''
        (Finite 5 (- 1)) [1..2 - 1] scrap_init
      = Continue \<lparr>house_info = [example_listing ''2025-01-01T00:00:00''], consecutive_errors = 0,
          requested = [page_url ''Lahore-1'' 1]\<rparr>
   \<and> scrap (two_pages ''Lahore-1'' [example_house] [no_price_house]) fixed_clock example_sleeps ''Lahore-1'' 10
        (Finite 5 (- 1))
      = Inr [example_listing ''2025-01-01T00:00:00'']
   \<and> requested (final_state (scrap_run (two_pages ''Lahore-1'' [example_house] [no_price_house])
          fixed_clock example_sleeps ''Lahore-1'' 10 (Finite 5 (- 1))))
      = [page_url ''Lahore-1'' 1, page_url ''Lahore-1'' 2]"
proof -
  let ?get = "two_pages ''Lahore-1'' [example_house] [no_price_house]"
  let ?st = "\<lparr>house_info = [example_listing ''2025-01-01T00:00:00''], consecutive_errors = 0,
      requested = [page_url ''Lahore-1'' 1]\<rparr>"
  have s: "quiet example_sleeps (Finite 5 (- 1))" by (simp add: quiet_def example_sleeps_def) code_simp
  have p2: "parsed_page (?get (page_url ''Lahore-1'' 2))" by code_simp
  have r: "scrap_loop ?get fixed_clock example_sleeps ''Lahore-1'' (Finite 5 (- 1)) [1..2 - 1] scrap_init = Continue ?st"
    by code_simp
  have ce: "consecutive_errors ?st < max_consecutive_errors"
    by (simp add: max_consecutive_errors_def)
  have len: "length (process_houses fixed_clock (houses_on (?get (page_url ''Lahore-1'' 2))) (house_info ?st))
      = length (house_info ?st)"
    by code_simp
  have one: "(1::int) \<le> 2" and ten: "(2::int) \<le> 10" by simp_all
  note w = duplicate_page_stops [where pages_range = 10 and get = ?get
      and city = "''Lahore-1''" and delay = "Finite 5 (- 1)" and now = fixed_clock and sl = example_sleeps,
      THEN conjunct1, rule_format, OF one ten r ce s p2 len, THEN conjunct2]
  have u: "map (page_url ''Lahore-1'') [1..2] = [page_url ''Lahore-1'' 1, page_url ''Lahore-1'' 2]"
    by (simp add: upto_rec1)
  show ?thesis using s p2 r w by (simp only: u simp_thms scrap_state.simps)
qed


text \<open>
  C10. The accumulator only grows. Processing the nodes of a page appends records to the
  accumulator and changes nothing of what is there; so does an iteration of the loop,
  however it ends. Hence the list the loop ends with starts with the accumulator of every
  state the loop went through, and \<open>scrap\<close> returns that list on each of its ways out
  (breaker, empty page, no new record, pages exhausted): whenever it returns a list, and
  it does so whenever no \<open>time.sleep\<close> raises. The one other way out is an exception of the
  \<open>time.sleep\<close> of an exception handler, with which \<open>scrap\<close> returns nothing.
\<close>

theorem accumulator_append_only:
  "(\<forall>hs acc. \<exists>ys. process_houses now hs acc = acc @ ys)
   \<and> (\<forall>st p. \<exists>ys. house_info (final_state (scrap_page get now sl city delay st p)) = house_info st @ ys)
   \<and> (\<forall>k st.
        0 \<le> k \<longrightarrow> k \<le> pages_range \<longrightarrow>
        scrap_loop get now sl city delay [1..k] scrap_init = Continue st \<longrightarrow>
          (\<exists>ys. house_info (final_state (scrap_run get now sl city pages_range delay))
                 = house_info st @ ys))
   \<and> (quiet sl delay \<longrightarrow>
        scrap get now sl city pages_range delay
          = Inr (house_info (final_state (scrap_run get now sl city pages_range delay))))
   \<and> (\<forall>l. scrap get now sl city pages_range delay = Inr l \<longrightarrow>
        l = house_info (final_state (scrap_run get now sl city pages_range delay)))
   \<and> (\<forall>e. scrap get now sl city pages_range delay = Inl e \<longrightarrow> (\<exists>p. penalty sl delay p = Some e))"
proof (intro conjI allI impI)
  fix hs acc
  show "\<exists>ys. process_houses now hs acc = acc @ ys" by (rule process_houses_extends)
next
  fix st p
  show "\<exists>ys. house_info (final_state (scrap_page get now sl city delay st p)) = house_info st @ ys"
    by (rule scrap_page_extends)
next
  fix k st
  assume k: "0 \<le> k" "k \<le> pages_range"
    and r: "scrap_loop get now sl city delay [1..k] scrap_init = Continue st"
  have "[1..pages_range] = [1..k] @ [k + 1..pages_range]"
    using k upto_split2 [of 1 k pages_range]
    by (cases "k = 0") (simp_all add: upto_rec1 [of 1 pages_range])
  then have "scrap_run get now sl city pages_range delay
      = scrap_loop get now sl city delay [k + 1..pages_range] st"
    using r by (simp add: scrap_run_def scrap_loop_append)
  then show "\<exists>ys. house_info (final_state (scrap_run get now sl city pages_range delay))
      = house_info st @ ys"
    using scrap_loop_extends [of get now sl city delay "[k + 1..pages_range]" st] by simp
next
  assume "quiet sl delay"
  then show "scrap get now sl city pages_range delay
      = Inr (house_info (final_state (scrap_run get now sl city pages_range delay)))"
    by (simp add: scrap_def scrap_run_def returned_no_raise)
next
  fix l
  assume "scrap get now sl city pages_range delay = Inr l"
  then show "l = house_info (final_state (scrap_run get now sl city pages_range delay))"
    by (cases "scrap_run get now sl city pages_range delay") (simp_all add: scrap_def)
next
  fix e
  assume "scrap get now sl city pages_range delay = Inl e"
  then obtain st' where "scrap_run get now sl city pages_range delay = Raise e st'"
    by (cases "scrap_run get now sl city pages_range delay") (simp_all add: scrap_def)
  then show "\<exists>p. penalty sl delay p = Some e"
    unfolding scrap_run_def by (rule scrap_loop_raise_penalty)
qed

theorem accumulator_append_only_witness:
  "quiet example_sleeps (Finite 5 (- 1))
   \<and> scrap_loop (two_pages ''Lahore-1'' [example_house] [example_house, bare_price_house])
        fixed_clock example_sleeps ''Lahore-1'' (Finite 5 (- 1)) [1..1] scrap_init
      = Continue \<lparr>house_info = [example_listing ''2025-01-01T00:00:00''], consecutive_errors = 0,
          requested = [page_url ''Lahore-1'' 1]\<rparr>
   \<and> (\<exists>ys. house_info (final_state (scrap_run
          (two_pages ''Lahore-1'' [example_house] [example_house, bare_price_house])
          fixed_clock example_sleeps ''Lahore-1'' 10 (Finite 5 (- 1))))
        = [example_listing ''2025-01-01T00:00:00''] @ ys)
   \<and> scrap (two_pages ''Lahore-1'' [example_house] [example_house, bare_price_house])
        fixed_clock example_sleeps ''Lahore-1'' 10 (Finite 5 (- 1))
      = Inr (house_info (final_state (scrap_run
          (two_pages ''Lahore-1'' [example_house] [example_house, bare_price_house])
          fixed_clock example_sleeps ''Lahore-1'' 10 (Finite 5 (- 1)))))"
proof -
  let ?get = "two_pages ''Lahore-1'' [example_house] [example_house, bare_price_house]"
  let ?st = "\<lparr>house_info = [example_listing ''2025-01-01T00:00:00''], consecutive_errors = 0,
      requested = [page_url ''Lahore-1'' 1]\<rparr>"
  have s: "quiet example_sleeps (Finite 5 (- 1))" by (simp add: quiet_def example_sleeps_def) code_simp
  have r: "scrap_loop ?get fixed_clock example_sleeps ''Lahore-1'' (Finite 5 (- 1)) [1..1] scrap_init = Continue ?st"
    by code_simp
  have k: "(0::int) \<le> 1" "(1::int) \<le> 10" by simp_all
  note t = accumulator_append_only [where pages_range = 10 and get = ?get
      and city = "''Lahore-1''" and delay = "Finite 5 (- 1)" and now = fixed_clock and sl = example_sleeps]
  note a = t [THEN conjunct2, THEN conjunct2, THEN conjunct1, rule_format, OF k r]
  note b = t [THEN conjunct2, THEN conjunct2, THEN conjunct2, THEN conjunct1, rule_format, OF s]
  show ?thesis using s r a b by (simp only: simp_thms scrap_state.simps)
qed

section \<open>One listing, and the run over the cities\<close>


lemma city_try_raise_stats:
  assumes "city_try w ts mp d r c = (Some e, r')"
  shows "city_stats r' = city_stats r"
  using assms by (auto simp: city_try_def Let_def split: sum.splits option.splits if_splits)

lemma city_try_return_stats:
  assumes "city_try w ts mp d r c = (None, r')"
  shows "\<exists>v. city_stats r' = AList.update (city_name c) v (city_stats r)"
  using assms by (auto simp: city_try_def Let_def split: sum.splits option.splits if_splits)

lemma process_city_updates:
  "\<exists>v. city_stats (process_city w ts mp d r c) = AList.update (city_name c) v (city_stats r)"
proof (cases "city_try w ts mp d r c")
  case (Pair x r')
  show ?thesis
  proof (cases x)
    case None
    then show ?thesis using Pair city_try_return_stats [of w ts mp d r c r']
      by (simp add: process_city_def)
  next
    case (Some e)
    then show ?thesis using Pair city_try_raise_stats [of w ts mp d r c e r']
      by (auto simp: process_city_def)
  qed
qed

lemma process_city_error:
  assumes "city_try w ts mp d r c = (Some e, r')"
  shows "city_stats (process_city w ts mp d r c)
    = AList.update (city_name c)
        [(''status'', PyStr ''error''), (''error_message'', PyStr (str_of_error e)),
         (''duration_seconds'', PyFloat (elapsed w (city_name c)))] (city_stats r)"
  using assms city_try_raise_stats [OF assms] by (simp add: process_city_def)

lemma process_city_other:
  assumes "n \<noteq> city_name c"
  shows "map_of (city_stats (process_city w ts mp d r c)) n = map_of (city_stats r) n"
proof -
  obtain v where "city_stats (process_city w ts mp d r c) = AList.update (city_name c) v (city_stats r)"
    using process_city_updates by blast
  then show ?thesis using assms by (simp add: update_conv')
qed

lemma process_city_recorded:
  "map_of (city_stats (process_city w ts mp d r c)) (city_name c) \<noteq> None"
proof -
  obtain v where "city_stats (process_city w ts mp d r c) = AList.update (city_name c) v (city_stats r)"
    using process_city_updates by blast
  then show ?thesis by (simp add: update_conv')
qed

lemma process_city_keeps:
  assumes "map_of (city_stats r) n \<noteq> None"
  shows "map_of (city_stats (process_city w ts mp d r c)) n \<noteq> None"
proof -
  obtain v where "city_stats (process_city w ts mp d r c) = AList.update (city_name c) v (city_stats r)"
    using process_city_updates by blast
  then show ?thesis using assms by (simp add: update_conv')
qed

lemma run_cities_append:
  "run_cities w ts mp d (pre @ c # post) r
    = run_cities w ts mp d post (process_city w ts mp d (run_cities w ts mp d pre r) c)"
  by (simp add: run_cities_def)

lemma run_cities_other:
  assumes "n \<notin> city_name ` set cs"
  shows "map_of (city_stats (run_cities w ts mp d cs r)) n = map_of (city_stats r) n"
  using assms
proof (induction cs arbitrary: r)
  case Nil
  then show ?case by (simp add: run_cities_def)
next
  case (Cons c cs)
  have "run_cities w ts mp d (c # cs) r = run_cities w ts mp d cs (process_city w ts mp d r c)"
    by (simp add: run_cities_def)
  moreover have "map_of (city_stats (run_cities w ts mp d cs (process_city w ts mp d r c))) n
      = map_of (city_stats (process_city w ts mp d r c)) n"
    using Cons by simp
  moreover have "map_of (city_stats (process_city w ts mp d r c)) n = map_of (city_stats r) n"
    using Cons.prems by (intro process_city_other) auto
  ultimately show ?case by simp
qed

lemma run_cities_keeps:
  assumes "map_of (city_stats r) n \<noteq> None"
  shows "map_of (city_stats (run_cities w ts mp d cs r)) n \<noteq> None"
  using assms
proof (induction cs arbitrary: r)
  case Nil
  then show ?case by (simp add: run_cities_def)
next
  case (Cons c cs)
  have "run_cities w ts mp d (c # cs) r = run_cities w ts mp d cs (process_city w ts mp d r c)"
    by (simp add: run_cities_def)
  then show ?case using Cons.IH [OF process_city_keeps [OF Cons.prems]] by simp
qed

lemma run_cities_recorded:
  assumes "c \<in> set cs"
  shows "map_of (city_stats (run_cities w ts mp d cs r)) (city_name c) \<noteq> None"
proof -
  from assms obtain pre post where cs: "cs = pre @ c # post" by (meson split_list)
  show ?thesis
    unfolding cs run_cities_append by (intro run_cities_keeps process_city_recorded)
qed

lemma city_try_scrap_raises:
  assumes "scrap (http_get w) (clock w (city_name c @ ''-'' @ str_int (city_id c)))
      (sleeping w (city_name c @ ''-'' @ str_int (city_id c)))
      (city_name c @ ''-'' @ str_int (city_id c)) mp d = Inl e"
  shows "city_try w ts mp d r c = (Some e, r)"
  using assms by (simp add: city_try_def Let_def)

lemma isolated_failure:
  assumes "distinct (map city_name (pre @ c # post))"
    and "city_try w ts mp d (run_cities w ts mp d pre r) c = (Some e, r')"
  shows "map_of (city_stats (run_cities w ts mp d (pre @ c # post) r)) (city_name c)
      = Some [(''status'', PyStr ''error''), (''error_message'', PyStr (str_of_error e)),
              (''duration_seconds'', PyFloat (elapsed w (city_name c)))]"
    and "\<forall>a\<in>set pre. map_of (city_stats (run_cities w ts mp d (pre @ c # post) r)) (city_name a)
      = map_of (city_stats (run_cities w ts mp d pre r)) (city_name a)"
proof -
  have c_post: "city_name c \<notin> city_name ` set post" using assms(1) by auto
  have "map_of (city_stats (run_cities w ts mp d (pre @ c # post) r)) (city_name c)
      = map_of (city_stats (process_city w ts mp d (run_cities w ts mp d pre r) c)) (city_name c)"
    unfolding run_cities_append using c_post by (rule run_cities_other)
  then show "map_of (city_stats (run_cities w ts mp d (pre @ c # post) r)) (city_name c)
      = Some [(''status'', PyStr ''error''), (''error_message'', PyStr (str_of_error e)),
              (''duration_seconds'', PyFloat (elapsed w (city_name c)))]"
    by (simp add: process_city_error [OF assms(2)] update_conv')
  show "\<forall>a\<in>set pre. map_of (city_stats (run_cities w ts mp d (pre @ c # post) r)) (city_name a)
      = map_of (city_stats (run_cities w ts mp d pre r)) (city_name a)"
  proof
    fix a
    assume a: "a \<in> set pre"
    then have a_in: "city_name a \<in> city_name ` set pre" by (rule imageI)
    have d: "city_name c \<notin> city_name ` set pre"
      "city_name ` set pre \<inter> city_name ` set post = {}"
      using assms(1) by auto
    have a_c: "city_name a \<noteq> city_name c" using a_in d(1) by metis
    have a_post: "city_name a \<notin> city_name ` set post" using a_in d(2) by blast
    have "map_of (city_stats (run_cities w ts mp d (pre @ c # post) r)) (city_name a)
        = map_of (city_stats (process_city w ts mp d (run_cities w ts mp d pre r) c)) (city_name a)"
      unfolding run_cities_append using a_post by (rule run_cities_other)
    also have "\<dots> = map_of (city_stats (run_cities w ts mp d pre r)) (city_name a)"
      using a_c by (rule process_city_other)
    finally show "map_of (city_stats (run_cities w ts mp d (pre @ c # post) r)) (city_name a)
        = map_of (city_stats (run_cities w ts mp d pre r)) (city_name a)" .
  qed
qed


text \<open>
  C7. The contract of one listing node. A node without a price is passed over, and a
  node with a price and a location gets the defaults for every field that is missing
  (0 for beds and baths, 0.0 for the size, the empty string for the others). But a node
  with a price and neither a size nor a location is passed over as well: the fallback for
  the size evaluates \<open>location.parent\<close> with \<open>location\<close> being \<open>None\<close>, and the
  \<open>AttributeError\<close> is caught by the handler of the listing, which goes on with the next
  node. A node whose price text is \<open>inf\<close> is passed over in the same way, through the
  \<open>OverflowError\<close> of \<open>convert_price\<close>.
\<close>

theorem priced_listing_skipped:
  "house_listing t bare_price_house
      = Inl (AttributeError (CHR 0x27 # ''NoneType'' @ CHR 0x27 #
          '' object has no attribute '' @ CHR 0x27 # ''parent'' @ [CHR 0x27]))
   \<and> process_houses fixed_clock [bare_price_house, example_house] []
      = [example_listing ''2025-01-01T00:00:00'']
   \<and> house_listing t infinite_price_house
      = Inl (OverflowError ''cannot convert float infinity to integer'')
   \<and> process_houses fixed_clock [infinite_price_house, example_house] []
      = [example_listing ''2025-01-01T00:00:00'']
   \<and> house_listing t no_price_house = Inr None
   \<and> house_listing t price_location_house
      = Inr (Some
          [(''location'', PyStr ''Gulberg''), (''price'', PyInt 5000000), (''bedrooms'', PyInt 0),
           (''baths'', PyInt 0), (''size'', PyFloat (Finite 0 0)), (''property_type'', PyStr []),
           (''date_added'', PyStr []), (''original_listing_id'', PyStr []),
           (''scrape_date'', PyStr t)])
   \<and> house_listing t example_house = Inr (Some (example_listing t))"
proof (intro conjI)
  show "house_listing t bare_price_house
      = Inl (AttributeError (CHR 0x27 # ''NoneType'' @ CHR 0x27 #
          '' object has no attribute '' @ CHR 0x27 # ''parent'' @ [CHR 0x27]))"
    by code_simp
  show "process_houses fixed_clock [bare_price_house, example_house] []
      = [example_listing ''2025-01-01T00:00:00'']"
    by code_simp
  show "house_listing t infinite_price_house
      = Inl (OverflowError ''cannot convert float infinity to integer'')"
    by code_simp
  show "process_houses fixed_clock [infinite_price_house, example_house] []
      = [example_listing ''2025-01-01T00:00:00'']"
    by code_simp
  show "house_listing t no_price_house = Inr None"
    by code_simp
  show "house_listing t price_location_house
      = Inr (Some
          [(''location'', PyStr ''Gulberg''), (''price'', PyInt 5000000), (''bedrooms'', PyInt 0),
           (''baths'', PyInt 0), (''size'', PyFloat (Finite 0 0)), (''property_type'', PyStr []),
           (''date_added'', PyStr []), (''original_listing_id'', PyStr []),
           (''scrape_date'', PyStr t)])"
    by code_simp
  show "house_listing t example_house = Inr (Some (example_listing t))"
    by code_simp
qed

text \<open>
  C8. The total of the run and the counts of the cities. In a run in which Lahore yields
  one listing and is uploaded, and Karachi yields one listing and the upload of its CSV
  file raises, \<open>total_listings\<close> is 2: the listing of Karachi was added before the upload.
  The entry of Karachi in \<open>city_stats\<close> has the status \<open>error\<close> and no \<open>listings_count\<close>, and
  the counts of the entries add up to 1.
\<close>

theorem total_exceeds_city_counts:
  "total_listings (ZameenScraper_run failing_upload_world ''20250101_000000'' 100 (Finite 5 (- 1))) = 2
   \<and> sum_listings_count
        (city_stats (ZameenScraper_run failing_upload_world ''20250101_000000'' 100 (Finite 5 (- 1))))
      = 1
   \<and> map_of (city_stats (ZameenScraper_run failing_upload_world ''20250101_000000'' 100 (Finite 5 (- 1))))
        ''Lahore''
      = Some [(''status'', PyStr ''success''), (''listings_count'', PyInt 1),
              (''duration_seconds'', PyFloat (Finite 3 0))]
   \<and> map_of (city_stats (ZameenScraper_run failing_upload_world ''20250101_000000'' 100 (Finite 5 (- 1))))
        ''Karachi''
      = Some [(''status'', PyStr ''error''),
              (''error_message'', PyStr ''The specified container does not exist.''),
              (''duration_seconds'', PyFloat (Finite 3 0))]
   \<and> map fst (city_stats (ZameenScraper_run failing_upload_world ''20250101_000000'' 100 (Finite 5 (- 1))))
      = map city_name cities"
proof (intro conjI)
  show "total_listings (ZameenScraper_run failing_upload_world ''20250101_000000'' 100 (Finite 5 (- 1))) = 2"
    by code_simp
  show "sum_listings_count
        (city_stats (ZameenScraper_run failing_upload_world ''20250101_000000'' 100 (Finite 5 (- 1))))
      = 1"
    by code_simp
  show "map_of (city_stats (ZameenScraper_run failing_upload_world ''20250101_000000'' 100 (Finite 5 (- 1))))
        ''Lahore''
      = Some [(''status'', PyStr ''success''), (''listings_count'', PyInt 1),
              (''duration_seconds'', PyFloat (Finite 3 0))]"
    by code_simp
  show "map_of (city_stats (ZameenScraper_run failing_upload_world ''20250101_000000'' 100 (Finite 5 (- 1))))
        ''Karachi''
      = Some [(''status'', PyStr ''error''),
              (''error_message'', PyStr ''The specified container does not exist.''),
              (''duration_seconds'', PyFloat (Finite 3 0))]"
    by code_simp
  show "map fst (city_stats (ZameenScraper_run failing_upload_world ''20250101_000000'' 100 (Finite 5 (- 1))))
      = map city_name cities"
    by code_simp
qed

text \<open>
  C9. A failure in one city stays in that city. Whatever exception leaves the \<open>try\<close> of a
  city, raised by \<open>scrap\<close> or by an upload, the entry of the city in \<open>city_stats\<close> becomes
  the status \<open>error\<close> with the message of the exception, and no other entry changes. The
  loop then goes on with the next city from that state, and every city of the list gets
  an entry. With distinct city names, at the end of the run the entry of the failed city
  is that error, and the entries of the cities before it are what they were when they were
  recorded.
\<close>

theorem city_failure_isolation:
  "(\<forall>r (c :: city) e.
      scrap (http_get w) (clock w (city_name c @ ''-'' @ str_int (city_id c)))
        (sleeping w (city_name c @ ''-'' @ str_int (city_id c)))
        (city_name c @ ''-'' @ str_int (city_id c)) mp d = Inl e \<longrightarrow>
        city_try w ts mp d r c = (Some e, r))
   \<and> (\<forall>r (c :: city) e r'.
      city_try w ts mp d r c = (Some e, r') \<longrightarrow>
        city_stats (process_city w ts mp d r c)
          = AList.update (city_name c)
              [(''status'', PyStr ''error''), (''error_message'', PyStr (str_of_error e)),
               (''duration_seconds'', PyFloat (elapsed w (city_name c)))] (city_stats r))
   \<and> (\<forall>r (c :: city) n.
      n \<noteq> city_name c \<longrightarrow>
        map_of (city_stats (process_city w ts mp d r c)) n = map_of (city_stats r) n)
   \<and> (\<forall>pre (c :: city) post r.
      run_cities w ts mp d (pre @ c # post) r
        = run_cities w ts mp d post (process_city w ts mp d (run_cities w ts mp d pre r) c))
   \<and> (\<forall>(cs :: city list) r. \<forall>c\<in>set cs. map_of (city_stats (run_cities w ts mp d cs r)) (city_name c) \<noteq> None)
   \<and> (\<forall>pre (c :: city) post r e r'.
      distinct (map city_name (pre @ c # post)) \<longrightarrow>
      city_try w ts mp d (run_cities w ts mp d pre r) c = (Some e, r') \<longrightarrow>
        map_of (city_stats (run_cities w ts mp d (pre @ c # post) r)) (city_name c)
          = Some [(''status'', PyStr ''error''), (''error_message'', PyStr (str_of_error e)),
                  (''duration_seconds'', PyFloat (elapsed w (city_name c)))]
        \<and> (\<forall>a\<in>set pre.
              map_of (city_stats (run_cities w ts mp d (pre @ c # post) r)) (city_name a)
                = map_of (city_stats (run_cities w ts mp d pre r)) (city_name a)))"
proof (intro conjI allI impI ballI)
  fix r and c :: city and e
  assume "scrap (http_get w) (clock w (city_name c @ ''-'' @ str_int (city_id c)))
      (sleeping w (city_name c @ ''-'' @ str_int (city_id c)))
      (city_name c @ ''-'' @ str_int (city_id c)) mp d = Inl e"
  then show "city_try w ts mp d r c = (Some e, r)" by (rule city_try_scrap_raises)
next
  fix r and c :: city and e r'
  assume "city_try w ts mp d r c = (Some e, r')"
  then show "city_stats (process_city w ts mp d r c)
      = AList.update (city_name c)
          [(''status'', PyStr ''error''), (''error_message'', PyStr (str_of_error e)),
           (''duration_seconds'', PyFloat (elapsed w (city_name c)))] (city_stats r)"
    by (rule process_city_error)
next
  fix r and c :: city and n
  assume "n \<noteq> city_name c"
  then show "map_of (city_stats (process_city w ts mp d r c)) n = map_of (city_stats r) n"
    by (rule process_city_other)
next
  fix pre and c :: city and post r
  show "run_cities w ts mp d (pre @ c # post) r
      = run_cities w ts mp d post (process_city w ts mp d (run_cities w ts mp d pre r) c)"
    by (rule run_cities_append)
next
  fix cs r and c :: city
  assume "c \<in> set cs"
  then show "map_of (city_stats (run_cities w ts mp d cs r)) (city_name c) \<noteq> None"
    by (rule run_cities_recorded)
next
  fix pre and c :: city and post r e r'
  assume a: "distinct (map city_name (pre @ c # post))"
    "city_try w ts mp d (run_cities w ts mp d pre r) c = (Some e, r')"
  show "map_of (city_stats (run_cities w ts mp d (pre @ c # post) r)) (city_name c)
      = Some [(''status'', PyStr ''error''), (''error_message'', PyStr (str_of_error e)),
              (''duration_seconds'', PyFloat (elapsed w (city_name c)))]"
    using a by (rule isolated_failure(1))
  fix x
  assume "x \<in> set pre"
  then show "map_of (city_stats (run_cities w ts mp d (pre @ c # post) r)) (city_name x)
      = map_of (city_stats (run_cities w ts mp d pre r)) (city_name x)"
    using isolated_failure(2) [OF a] by blast
qed

theorem city_failure_isolation_witness:
  "distinct (map city_name cities)
   \<and> city_try failing_upload_world ''20250101_000000'' 100 (Finite 5 (- 1))
        (run_cities failing_upload_world ''20250101_000000'' 100 (Finite 5 (- 1))
          [\<lparr>city_id = 1, city_name = ''Lahore''\<rparr>] \<lparr>total_listings = 0, city_stats = []\<rparr>)
        \<lparr>city_id = 2, city_name = ''Karachi''\<rparr>
      = (Some (OtherError ''The specified container does not exist.''),
         \<lparr>total_listings = 2,
          city_stats = [(''Lahore'', [(''status'', PyStr ''success''), (''listings_count'', PyInt 1),
                                     (''duration_seconds'', PyFloat (Finite 3 0))])]\<rparr>)
   \<and> map_of (city_stats (ZameenScraper_run failing_upload_world ''20250101_000000'' 100 (Finite 5 (- 1))))
        ''Karachi''
      = Some [(''status'', PyStr ''error''),
              (''error_message'', PyStr ''The specified container does not exist.''),
              (''duration_seconds'', PyFloat (Finite 3 0))]
   \<and> map_of (city_stats (ZameenScraper_run failing_upload_world ''20250101_000000'' 100 (Finite 5 (- 1))))
        ''Lahore''
      = Some [(''status'', PyStr ''success''), (''listings_count'', PyInt 1),
              (''duration_seconds'', PyFloat (Finite 3 0))]
   \<and> list_all (\<lambda>c. map_of (city_stats
          (ZameenScraper_run failing_upload_world ''20250101_000000'' 100 (Finite 5 (- 1)))) (city_name c)
        \<noteq> None) cities
   \<and> scrap two_cities_site fixed_clock example_sleeps ''Lahore-1'' 100 (Finite (- 5) (- 1))
      = Inl (ValueError ''sleep length must be non-negative'')
   \<and> city_stats (process_city failing_upload_world ''20250101_000000'' 100 (Finite (- 5) (- 1))
        \<lparr>total_listings = 0, city_stats = []\<rparr> \<lparr>city_id = 1, city_name = ''Lahore''\<rparr>)
      = [(''Lahore'', [(''status'', PyStr ''error''),
                      (''error_message'', PyStr ''sleep length must be non-negative''),
                      (''duration_seconds'', PyFloat (Finite 3 0))])]"
proof -
  let ?w = failing_upload_world
  let ?ts = "''20250101_000000''"
  let ?d = "Finite 5 (- 1)"
  let ?n = "Finite (- 5) (- 1)"
  let ?r0 = "\<lparr>total_listings = 0, city_stats = []\<rparr>"
  let ?L = "\<lparr>city_id = 1, city_name = ''Lahore''\<rparr>"
  let ?K = "\<lparr>city_id = 2, city_name = ''Karachi''\<rparr>"
  let ?post = "[\<lparr>city_id = 3, city_name = ''Islamabad''\<rparr>,
     \<lparr>city_id = 15, city_name = ''Multan''\<rparr>,
     \<lparr>city_id = 16, city_name = ''Faisalabad''\<rparr>,
     \<lparr>city_id = 17, city_name = ''Peshawar''\<rparr>,
     \<lparr>city_id = 18, city_name = ''Quetta''\<rparr>,
     \<lparr>city_id = 41, city_name = ''Rawalpindi''\<rparr>,
     \<lparr>city_id = 36, city_name = ''Murree''\<rparr>,
     \<lparr>city_id = 327, city_name = ''Gujranwala''\<rparr>,
     \<lparr>city_id = 1233, city_name = ''Attock''\<rparr>]"
  have split: "cities = [?L] @ ?K # ?post" by (simp add: cities_def)
  have d: "distinct (map city_name cities)" by code_simp
  have d': "distinct (map city_name ([?L] @ ?K # ?post))" using d unfolding split .
  have t: "city_try ?w ?ts 100 ?d (run_cities ?w ?ts 100 ?d [?L] ?r0) ?K
      = (Some (OtherError ''The specified container does not exist.''),
         \<lparr>total_listings = 2,
          city_stats = [(''Lahore'', [(''status'', PyStr ''success''), (''listings_count'', PyInt 1),
                                     (''duration_seconds'', PyFloat (Finite 3 0))])]\<rparr>)"
    by code_simp
  have l: "map_of (city_stats (run_cities ?w ?ts 100 ?d [?L] ?r0)) ''Lahore''
      = Some [(''status'', PyStr ''success''), (''listings_count'', PyInt 1),
              (''duration_seconds'', PyFloat (Finite 3 0))]"
    by code_simp
  have el: "elapsed ?w ''Karachi'' = Finite 3 0" "elapsed ?w ''Lahore'' = Finite 3 0"
    by (simp_all add: failing_upload_world_def)
  note iso = city_failure_isolation [of ?w 100 ?d ?ts, THEN conjunct2, THEN conjunct2,
      THEN conjunct2, THEN conjunct2, THEN conjunct2, rule_format, OF d' t]
  have k: "map_of (city_stats (ZameenScraper_run ?w ?ts 100 ?d)) ''Karachi''
      = Some [(''status'', PyStr ''error''),
              (''error_message'', PyStr ''The specified container does not exist.''),
              (''duration_seconds'', PyFloat (Finite 3 0))]"
    using iso [THEN conjunct1] unfolding ZameenScraper_run_def split
    by (simp add: el str_of_error.simps)
  have "map_of (city_stats (ZameenScraper_run ?w ?ts 100 ?d)) (city_name ?L)
      = map_of (city_stats (run_cities ?w ?ts 100 ?d [?L] ?r0)) (city_name ?L)"
    unfolding ZameenScraper_run_def split
    by (rule iso [THEN conjunct2, rule_format]) simp
  then have l': "map_of (city_stats (ZameenScraper_run ?w ?ts 100 ?d)) ''Lahore''
      = Some [(''status'', PyStr ''success''), (''listings_count'', PyInt 1),
              (''duration_seconds'', PyFloat (Finite 3 0))]"
    using l by simp
  have "\<forall>c\<in>set cities. map_of (city_stats (ZameenScraper_run ?w ?ts 100 ?d)) (city_name c) \<noteq> None"
    unfolding ZameenScraper_run_def
    using city_failure_isolation [of ?w 100 ?d ?ts, THEN conjunct2, THEN conjunct2,
      THEN conjunct2, THEN conjunct2, THEN conjunct1, rule_format, of _ cities ?r0]
    by blast
  then have all: "list_all (\<lambda>c. map_of (city_stats (ZameenScraper_run ?w ?ts 100 ?d)) (city_name c)
        \<noteq> None) cities"
    by (simp add: list_all_iff)
  have s: "scrap two_cities_site fixed_clock example_sleeps ''Lahore-1'' 100 ?n
      = Inl (ValueError ''sleep length must be non-negative'')"
    by code_simp
  have s': "scrap (http_get ?w) (clock ?w (city_name ?L @ ''-'' @ str_int (city_id ?L)))
        (sleeping ?w (city_name ?L @ ''-'' @ str_int (city_id ?L)))
        (city_name ?L @ ''-'' @ str_int (city_id ?L)) 100 ?n
      = Inl (ValueError ''sleep length must be non-negative'')"
    by code_simp
  note ct = city_failure_isolation [of ?w 100 ?n ?ts, THEN conjunct1, rule_format, OF s', of ?r0]
  have p: "city_stats (process_city ?w ?ts 100 ?n ?r0 ?L)
      = [(''Lahore'', [(''status'', PyStr ''error''),
                      (''error_message'', PyStr ''sleep length must be non-negative''),
                      (''duration_seconds'', PyFloat (Finite 3 0))])]"
    using city_failure_isolation [of ?w 100 ?n ?ts, THEN conjunct2, THEN conjunct1, rule_format, OF ct]
    by (simp add: el str_of_error.simps)
  from d t k l' all s p show ?thesis by (intro conjI)
qed

end
